theory Spec2Isabelle
  imports Main
begin

section \<open>JavaScript values shared by both flows\<close>

text \<open>
  A property that may be \<^verbatim>\<open>undefined\<close>, \<^verbatim>\<open>null\<close> or a value. Where the source
  only ever distinguishes "absent" from "present" an \<open>option\<close> is used instead.
\<close>

datatype 'a Nullable = Undefined | Null | Value 'a

text \<open>\<^verbatim>\<open>x ?? undefined\<close>\<close>

fun nullishToUndefined :: "'a Nullable \<Rightarrow> 'a Nullable" where
  "nullishToUndefined Null = Undefined"
| "nullishToUndefined x = x"

text \<open>Truthiness of an optional string: absent and the empty string are falsy.\<close>

fun truthyString :: "string option \<Rightarrow> bool" where
  "truthyString None = False"
| "truthyString (Some s) = (s \<noteq> [])"

text \<open>Truthiness of an optional boolean.\<close>

fun truthyBool :: "bool option \<Rightarrow> bool" where
  "truthyBool None = False"
| "truthyBool (Some b) = b"

text \<open>Truthiness of an optional number (\<^verbatim>\<open>0\<close> is falsy).\<close>

fun truthyNumber :: "int option \<Rightarrow> bool" where
  "truthyNumber None = False"
| "truthyNumber (Some n) = (n \<noteq> 0)"

text \<open>\<^verbatim>\<open>parts.join(sep)\<close> on an array of strings.\<close>

fun joinStrings :: "string \<Rightarrow> string list \<Rightarrow> string" where
  "joinStrings sep [] = []"
| "joinStrings sep [x] = x"
| "joinStrings sep (x # y # ys) = x @ sep @ joinStrings sep (y # ys)"

text \<open>A string interpolated into a template literal; \<open>absent\<close> is the text printed
  for a missing one (\<^verbatim>\<open>null\<close> or \<^verbatim>\<open>undefined\<close>).\<close>

fun interpolate :: "string \<Rightarrow> string option \<Rightarrow> string" where
  "interpolate absent None = absent"
| "interpolate absent (Some s) = s"

section \<open>Query-results hooks (src/unnamed/part\_000)\<close>

subsection \<open>Data of \<^verbatim>\<open>@lightdash/common\<close> used by the hooks\<close>

text \<open>The members of the enum \<^verbatim>\<open>DateGranularity\<close>; each is a non-empty string, so a
  granularity that is given is truthy.\<close>

datatype DateGranularity = DAY | WEEK | MONTH | QUARTER | YEAR

datatype QueryExecutionContext = EXPLORE

record SortField =
  fieldId :: string
  descending :: bool

text \<open>A metric query: the two properties the hooks rewrite, and the rest of the object.\<close>

record ('f, 'm) MetricQuery =
  filters :: 'f
  timezone :: "string Nullable"
  otherProperties :: 'm

record ApiError =
  errorName :: string
  statusCode :: nat
  message :: string

datatype QueryError = ApiFailure ApiError | ParameterError string

record CacheMetadata =
  cacheHit :: bool

record ('mq, 'row, 'fl) ApiQueryResults =
  metricQuery :: 'mq
  cacheMetadata :: CacheMetadata
  rows :: "'row list"
  resultFields :: 'fl
  queryUuid :: "string option"

record ('mq, 'row, 'fl) ApiPaginatedQueryResults =
  pageRows :: "'row list"
  nextPage :: "int option"
  pageQueryUuid :: string
  pageMetricQuery :: 'mq
  pageFields :: 'fl

record QueryMetadata =
  hasADateDimension :: bool

record ChartMetricQuery =
  metadata :: "QueryMetadata option"

record 'c ApiChartAndResults =
  chartMetricQuery :: "ChartMetricQuery option"
  chartAndRows :: 'c

subsection \<open>HTTP requests\<close>

record ('f, 'm) PaginatedQuery =
  spreadQuery :: "('f, 'm) MetricQuery"
  exploreName :: string
  queryGranularity :: "DateGranularity option"

record ('f, 'm) PaginatedMetricQueryRequestParams =
  requestContext :: QueryExecutionContext
  requestQuery :: "('f, 'm) PaginatedQuery"

text \<open>The request bodies the hooks serialise, one constructor per object shape.\<close>

datatype ('df, 'f, 'm) RequestBody =
    NoBody
  | ChartAndResultsBody "string option" 'df "SortField list option" "DateGranularity option"
      bool "bool option"
  | RunQueryBody "('f, 'm) MetricQuery option" "DateGranularity option" "int Nullable"
      "string option"
  | UnderlyingDataBody "('f, 'm) MetricQuery"
  | PaginatedQueryBody "('f, 'm) PaginatedMetricQueryRequestParams"
  | PaginatedPageBody string "int option"

text \<open>The \<^verbatim>\<open>version\<close> of a request is \<^verbatim>\<open>'v2'\<close> or left out.\<close>

datatype ApiVersion = V2

datatype HttpMethod = GET | POST

record ('df, 'f, 'm) HttpRequest =
  url :: string
  version :: "ApiVersion option"
  httpMethod :: HttpMethod
  body :: "('df, 'f, 'm) RequestBody"

text \<open>The network: the state of the backend and the requests issued so far, in order.\<close>

record ('s, 'rq) Net =
  backend :: 's
  requests :: "'rq list"

text \<open>
  Modelled from the spec: \<^verbatim>\<open>lightdashApi\<close> (imported from \<^verbatim>\<open>../api\<close>, not under src/)
  issues one HTTP call and suspends until response or failure. \<open>respond\<close> is the
  backend's answer to a request in a backend state.
\<close>

definition lightdashApi ::
  "('rq \<Rightarrow> 's \<Rightarrow> (ApiError + 'r) \<times> 's) \<Rightarrow> 'rq \<Rightarrow> ('s, 'rq) Net \<Rightarrow> (ApiError + 'r) \<times> ('s, 'rq) Net" where
  "lightdashApi respond rq net =
     (case respond rq (backend net) of
        (answer, s') \<Rightarrow> (answer, \<lparr>backend = s', requests = requests net @ [rq]\<rparr>))"

subsection \<open>The calls\<close>

definition getChartResults ::
  "(('df, 'f, 'm) HttpRequest \<Rightarrow> 's \<Rightarrow> (ApiError + 'r) \<times> 's) \<Rightarrow> string option \<Rightarrow> string option \<Rightarrow>
   ('s, ('df, 'f, 'm) HttpRequest) Net \<Rightarrow> (ApiError + 'r) \<times> ('s, ('df, 'f, 'm) HttpRequest) Net" where
  "getChartResults respond chart ctx =
     lightdashApi respond
       \<lparr>url = ''/saved/'' @ interpolate ''undefined'' chart @ ''/results'' @
          (if truthyString ctx then ''?context='' @ interpolate ''undefined'' ctx else ''''),
        version = None, httpMethod = POST, body = NoBody\<rparr>"

definition getChartAndResults ::
  "(('df, 'f, 'm) HttpRequest \<Rightarrow> 's \<Rightarrow> (ApiError + 'r) \<times> 's) \<Rightarrow> string option \<Rightarrow> string option \<Rightarrow> 'df \<Rightarrow>
   bool option \<Rightarrow> SortField list option \<Rightarrow> DateGranularity option \<Rightarrow> bool option \<Rightarrow> string option \<Rightarrow>
   ('s, ('df, 'f, 'm) HttpRequest) Net \<Rightarrow> (ApiError + 'r) \<times> ('s, ('df, 'f, 'm) HttpRequest) Net" where
  "getChartAndResults respond chart dashboard dFilters invalidate dSorts gran autoRef ctx =
     lightdashApi respond
       \<lparr>url = ''/saved/'' @ interpolate ''null'' chart @ ''/chart-and-results'' @
          (if truthyString ctx then ''?context='' @ interpolate ''undefined'' ctx else ''''),
        version = None, httpMethod = POST,
        body = ChartAndResultsBody dashboard dFilters dSorts gran (truthyBool invalidate) autoRef\<rparr>"

record ('f, 'm) QueryResultsProps =
  projectUuid :: string
  tableId :: string
  query :: "('f, 'm) MetricQuery option"
  csvLimit :: "int Nullable"
  chartUuid :: "string option"
  chartVersionUuid :: "string option"
  dateZoomGranularity :: "DateGranularity option"
  queryContext :: "string option"

definition getQueryResults ::
  "(('df, 'f, 'm) HttpRequest \<Rightarrow> 's \<Rightarrow> (ApiError + 'r) \<times> 's) \<Rightarrow> ('f \<Rightarrow> 'f) \<Rightarrow> ('f, 'm) QueryResultsProps \<Rightarrow>
   ('s, ('df, 'f, 'm) HttpRequest) Net \<Rightarrow> (ApiError + 'r) \<times> ('s, ('df, 'f, 'm) HttpRequest) Net" where
  "getQueryResults respond convertDateFilters props =
     (let timezoneFixQuery =
        map_option
          (\<lambda>q. q\<lparr>filters := convertDateFilters (filters q),
                 timezone := nullishToUndefined (timezone q)\<rparr>)
          (query props)
      in lightdashApi respond
           \<lparr>url = ''/projects/'' @ projectUuid props @ ''/explores/'' @ tableId props @ ''/runQuery'',
            version = None, httpMethod = POST,
            body = RunQueryBody timezoneFixQuery (dateZoomGranularity props) (csvLimit props)
                     (queryContext props)\<rparr>)"

definition getUnderlyingDataResults ::
  "(('df, 'f, 'm) HttpRequest \<Rightarrow> 's \<Rightarrow> (ApiError + 'r) \<times> 's) \<Rightarrow> ('f \<Rightarrow> 'f) \<Rightarrow> string option \<Rightarrow> string \<Rightarrow>
   ('f, 'm) MetricQuery \<Rightarrow>
   ('s, ('df, 'f, 'm) HttpRequest) Net \<Rightarrow> (ApiError + 'r) \<times> ('s, ('df, 'f, 'm) HttpRequest) Net" where
  "getUnderlyingDataResults respond convertDateFilters project table q =
     (let timezoneFixQuery = q\<lparr>filters := convertDateFilters (filters q)\<rparr>
      in lightdashApi respond
           \<lparr>url = ''/projects/'' @ interpolate ''undefined'' project @ ''/explores/'' @ table @
              ''/runUnderlyingDataQuery'',
            version = None, httpMethod = POST, body = UnderlyingDataBody timezoneFixQuery\<rparr>)"

definition getChartVersionResults ::
  "(('df, 'f, 'm) HttpRequest \<Rightarrow> 's \<Rightarrow> (ApiError + 'r) \<times> 's) \<Rightarrow> string \<Rightarrow> string \<Rightarrow>
   ('s, ('df, 'f, 'm) HttpRequest) Net \<Rightarrow> (ApiError + 'r) \<times> ('s, ('df, 'f, 'm) HttpRequest) Net" where
  "getChartVersionResults respond chart versionUuid =
     lightdashApi respond
       \<lparr>url = ''/saved/'' @ chart @ ''/version/'' @ versionUuid @ ''/results'',
        version = None, httpMethod = POST, body = NoBody\<rparr>"

subsection \<open>\<^verbatim>\<open>useChartAndResults\<close>\<close>

datatype 'df QueryKeyPart =
    KeyString string
  | KeyNullable "string option"
  | KeyFilters 'df
  | KeyFlag "bool option"
  | KeyGranularity DateGranularity

definition sortKey :: "SortField list option \<Rightarrow> string" where
  "sortKey dSorts =
     (case dSorts of
        None \<Rightarrow> ''''
      | Some ds \<Rightarrow>
          joinStrings '',''
            (map (\<lambda>d. fieldId d @ ''.'' @ (if descending d then ''true'' else ''false'')) ds))"

definition chartAndResultsQueryKey ::
  "string option \<Rightarrow> string option \<Rightarrow> 'df \<Rightarrow> bool option \<Rightarrow> SortField list option \<Rightarrow> bool option \<Rightarrow>
   'df QueryKeyPart list" where
  "chartAndResultsQueryKey chart dashboard dFilters invalidate dSorts autoRef =
     [KeyString ''savedChartResults'', KeyNullable chart, KeyNullable dashboard,
      KeyFilters dFilters, KeyFlag invalidate, KeyString (sortKey dSorts), KeyFlag autoRef]"

text \<open>\<^verbatim>\<open>!!apiChartAndResults?.metricQuery?.metadata?.hasADateDimension\<close>, on what the query
  cache holds.\<close>

definition cachedHasADateDimension :: "'c ApiChartAndResults option \<Rightarrow> bool" where
  "cachedHasADateDimension apiChartAndResults =
     (case apiChartAndResults of
        None \<Rightarrow> False
      | Some r \<Rightarrow>
          (case chartMetricQuery r of
             None \<Rightarrow> False
           | Some mq \<Rightarrow> (case metadata mq of None \<Rightarrow> False | Some md \<Rightarrow> hasADateDimension md)))"

text \<open>The dashboard context's state: the charts with date zoom applied, a set of chart
  identifiers (\<open>None\<close> inside the set is \<^verbatim>\<open>null\<close>) or \<^verbatim>\<open>undefined\<close>.\<close>

record DashboardContext =
  chartsWithDateZoomApplied :: "string option set option"

definition setChartsWithDateZoomApplied ::
  "(string option set option \<Rightarrow> string option set option) \<Rightarrow> DashboardContext \<Rightarrow> DashboardContext" where
  "setChartsWithDateZoomApplied updater c =
     c\<lparr>chartsWithDateZoomApplied := updater (chartsWithDateZoomApplied c)\<rparr>"

text \<open>The updater \<^verbatim>\<open>(prev) => ...\<close> of \<^verbatim>\<open>useChartAndResults\<close>.\<close>

definition dateZoomUpdater ::
  "bool \<Rightarrow> DateGranularity option \<Rightarrow> string option \<Rightarrow> string option set option \<Rightarrow> string option set option" where
  "dateZoomUpdater hasDate gran chart prev =
     (if hasDate then
        (if gran \<noteq> None then Some (insert chart (case prev of None \<Rightarrow> {} | Some s \<Rightarrow> s))
         else (case prev of None \<Rightarrow> None | Some s \<Rightarrow> Some {}))
      else prev)"

subsection \<open>\<^verbatim>\<open>useQuery\<close>\<close>

text \<open>The options object a hook hands to \<^verbatim>\<open>useQuery\<close>. \<^verbatim>\<open>retry\<close> is a boolean or a
  number of retries. A \<open>queryFn\<close> takes the network to its settled promise and the network
  afterwards; \<open>None\<close> is a promise that never settles. An option a hook leaves out is
  \<open>None\<close>.\<close>

datatype RetryValue = RetryBool bool | RetryCount nat

record ('k, 'w, 'e, 'd) UseQueryOptions =
  queryKey :: 'k
  queryFn :: "'w \<Rightarrow> (('e + 'd) \<times> 'w) option"
  enabled :: "bool option"
  retry :: "RetryValue option"
  refetchOnMount :: "bool option"

record ('e, 'd) UseQueryResult =
  resultData :: "'d option"
  resultError :: "'e option"

text \<open>
  Modelled from the spec: \<^verbatim>\<open>useQuery\<close> of the data-fetching library and the query
  client with its default options are not under src/. The spec gives the policy as
  "at most one in-flight request per key, no retry on failure": the client's default is
  no retry. The \<^verbatim>\<open>retry\<close> option of a query stands before the client's default;
  \<^verbatim>\<open>false\<close> never retries, \<^verbatim>\<open>true\<close> retries until the fetch succeeds, a number
  \<open>n\<close> retries while fewer than \<open>n\<close> attempts have failed. The model is one mount of
  a query whose key is not yet cached: a disabled query fetches nothing, an enabled one
  runs its \<open>queryFn\<close> and settles with the data or with the error.
\<close>

definition queryClientRetry :: RetryValue where
  "queryClientRetry = RetryBool False"

fun shouldRetry :: "RetryValue \<Rightarrow> nat \<Rightarrow> bool" where
  "shouldRetry (RetryBool b) failureCount = b"
| "shouldRetry (RetryCount n) failureCount = (failureCount < n)"

partial_function (option) fetchWithRetry ::
  "RetryValue \<Rightarrow> nat \<Rightarrow> ('w \<Rightarrow> (('e + 'd) \<times> 'w) option) \<Rightarrow> 'w \<Rightarrow> (('e + 'd) \<times> 'w) option" where
  "fetchWithRetry r failureCount fn w =
     (case fn w of
        None \<Rightarrow> None
      | Some (Inr d, w') \<Rightarrow> Some (Inr d, w')
      | Some (Inl e, w') \<Rightarrow>
          if shouldRetry r failureCount then fetchWithRetry r (Suc failureCount) fn w'
          else Some (Inl e, w'))"

definition useQuery ::
  "RetryValue \<Rightarrow> ('k, 'w, 'e, 'd) UseQueryOptions \<Rightarrow> 'w \<Rightarrow> (('e, 'd) UseQueryResult \<times> 'w) option" where
  "useQuery clientRetry options w =
     (if enabled options = Some False then Some (\<lparr>resultData = None, resultError = None\<rparr>, w)
      else
        (case fetchWithRetry (case retry options of None \<Rightarrow> clientRetry | Some r \<Rightarrow> r) 0
                (queryFn options) w of
           None \<Rightarrow> None
         | Some (Inl e, w') \<Rightarrow> Some (\<lparr>resultData = None, resultError = Some e\<rparr>, w')
         | Some (Inr d, w') \<Rightarrow> Some (\<lparr>resultData = Some d, resultError = None\<rparr>, w')))"

subsection \<open>\<^verbatim>\<open>useUnderlyingDataResults\<close>\<close>

definition underlyingDataQueryOptions ::
  "(('df, 'f, 'm) HttpRequest \<Rightarrow> 's \<Rightarrow> (ApiError + 'r) \<times> 's) \<Rightarrow> ('f \<Rightarrow> 'f) \<Rightarrow> string option \<Rightarrow> string \<Rightarrow>
   ('f, 'm) MetricQuery \<Rightarrow>
   (string \<times> string option \<times> ('f, 'm) MetricQuery, ('s, ('df, 'f, 'm) HttpRequest) Net, ApiError, 'r)
     UseQueryOptions" where
  "underlyingDataQueryOptions respond convertDateFilters project table q =
     \<lparr>queryKey = (''underlyingDataResults'', project, q),
      queryFn = (\<lambda>net. Some (getUnderlyingDataResults respond convertDateFilters project table q net)),
      enabled = None,
      retry = Some (RetryBool False),
      refetchOnMount = None\<rparr>"

definition useUnderlyingDataResults ::
  "RetryValue \<Rightarrow> (('df, 'f, 'm) HttpRequest \<Rightarrow> 's \<Rightarrow> (ApiError + 'r) \<times> 's) \<Rightarrow> ('f \<Rightarrow> 'f) \<Rightarrow> string option \<Rightarrow>
   string \<Rightarrow> ('f, 'm) MetricQuery \<Rightarrow> ('s, ('df, 'f, 'm) HttpRequest) Net \<Rightarrow>
   ((ApiError, 'r) UseQueryResult \<times> ('s, ('df, 'f, 'm) HttpRequest) Net) option" where
  "useUnderlyingDataResults clientRetry respond convertDateFilters project table q =
     useQuery clientRetry (underlyingDataQueryOptions respond convertDateFilters project table q)"

subsection \<open>\<^verbatim>\<open>useChartAndResults\<close>, the query\<close>

definition chartAndResultsQueryOptions ::
  "(('df, 'f, 'm) HttpRequest \<Rightarrow> 's \<Rightarrow> (ApiError + 'c ApiChartAndResults) \<times> 's) \<Rightarrow> ('df \<Rightarrow> 'df) \<Rightarrow>
   ('df QueryKeyPart list \<Rightarrow> 'c ApiChartAndResults option) \<Rightarrow>
   string option \<Rightarrow> string option \<Rightarrow> 'df \<Rightarrow> SortField list option \<Rightarrow> bool option \<Rightarrow>
   DateGranularity option \<Rightarrow> bool option \<Rightarrow> string option \<Rightarrow>
   ('df QueryKeyPart list, ('s, ('df, 'f, 'm) HttpRequest) Net, ApiError, 'c ApiChartAndResults)
     UseQueryOptions" where
  "chartAndResultsQueryOptions respond convertDateDashboardFilters getQueryData chart dashboard dFilters
       dSorts invalidate gran autoRef ctx =
     (let baseKey = chartAndResultsQueryKey chart dashboard dFilters invalidate dSorts autoRef;
          apiChartAndResults = getQueryData baseKey;
          timezoneFixFilters = convertDateDashboardFilters dFilters;
          hasDate = cachedHasADateDimension apiChartAndResults;
          fetchChartAndResults =
            (\<lambda>net. Some (getChartAndResults respond chart dashboard timezoneFixFilters invalidate
                              dSorts gran autoRef ctx net))
      in \<lparr>queryKey =
            (if hasDate then (case gran of Some g \<Rightarrow> baseKey @ [KeyGranularity g] | None \<Rightarrow> baseKey)
             else baseKey),
          queryFn = fetchChartAndResults,
          enabled = Some (truthyString chart \<and> truthyString dashboard),
          retry = Some (RetryBool False),
          refetchOnMount = Some False\<rparr>)"

definition useChartAndResults ::
  "RetryValue \<Rightarrow> (('df, 'f, 'm) HttpRequest \<Rightarrow> 's \<Rightarrow> (ApiError + 'c ApiChartAndResults) \<times> 's) \<Rightarrow>
   ('df \<Rightarrow> 'df) \<Rightarrow> ('df QueryKeyPart list \<Rightarrow> 'c ApiChartAndResults option) \<Rightarrow>
   string option \<Rightarrow> string option \<Rightarrow> 'df \<Rightarrow> SortField list option \<Rightarrow> bool option \<Rightarrow>
   DateGranularity option \<Rightarrow> bool option \<Rightarrow> string option \<Rightarrow>
   DashboardContext \<Rightarrow> ('s, ('df, 'f, 'm) HttpRequest) Net \<Rightarrow>
   DashboardContext \<times>
   ((ApiError, 'c ApiChartAndResults) UseQueryResult \<times> ('s, ('df, 'f, 'm) HttpRequest) Net) option" where
  "useChartAndResults clientRetry respond convertDateDashboardFilters getQueryData chart dashboard
       dFilters dSorts invalidate gran autoRef ctx dashboardContext net =
     (let hasDate =
            cachedHasADateDimension
              (getQueryData
                 (chartAndResultsQueryKey chart dashboard dFilters invalidate dSorts autoRef))
      in (setChartsWithDateZoomApplied (dateZoomUpdater hasDate gran chart) dashboardContext,
          useQuery clientRetry
            (chartAndResultsQueryOptions respond convertDateDashboardFilters getQueryData chart
               dashboard dFilters dSorts invalidate gran autoRef ctx)
            net))"

subsection \<open>\<^verbatim>\<open>getQueryPaginatedResults\<close>\<close>

definition paginatedQueryRequest ::
  "string \<Rightarrow> ('f, 'm) PaginatedMetricQueryRequestParams \<Rightarrow> ('df, 'f, 'm) HttpRequest" where
  "paginatedQueryRequest project data =
     \<lparr>url = ''/projects/'' @ project @ ''/query'', version = Some V2, httpMethod = POST,
      body = PaginatedQueryBody data\<rparr>"

definition paginatedPageRequest :: "string \<Rightarrow> string \<Rightarrow> int option \<Rightarrow> ('df, 'f, 'm) HttpRequest" where
  "paginatedPageRequest project firstQueryUuid page =
     \<lparr>url = ''/projects/'' @ project @ ''/query'', version = Some V2, httpMethod = POST,
      body = PaginatedPageBody firstQueryUuid page\<rparr>"

text \<open>The \<^verbatim>\<open>while (currentPage.nextPage)\<close> loop, with \<^verbatim>\<open>allRows\<close> and
  \<^verbatim>\<open>currentPage\<close> as arguments. A backend that never stops handing out next pages keeps
  it running: the result is then \<open>None\<close>.\<close>

partial_function (option) getAllPageRows ::
  "(('df, 'f, 'm) HttpRequest \<Rightarrow> 's \<Rightarrow> (ApiError + ('mq, 'row, 'fl) ApiPaginatedQueryResults) \<times> 's) \<Rightarrow>
   string \<Rightarrow> string \<Rightarrow> ('mq, 'row, 'fl) ApiPaginatedQueryResults \<Rightarrow> 'row list \<Rightarrow>
   ('s, ('df, 'f, 'm) HttpRequest) Net \<Rightarrow>
   ((ApiError + 'row list) \<times> ('s, ('df, 'f, 'm) HttpRequest) Net) option" where
  "getAllPageRows respond project firstQueryUuid currentPage allRows net =
     (if truthyNumber (nextPage currentPage) then
        (case lightdashApi respond
                (paginatedPageRequest project firstQueryUuid (nextPage currentPage)) net of
           (Inl e, net') \<Rightarrow> Some (Inl e, net')
         | (Inr page, net') \<Rightarrow>
             getAllPageRows respond project firstQueryUuid page (allRows @ pageRows page) net')
      else Some (Inr allRows, net))"

definition getQueryPaginatedResults ::
  "(('df, 'f, 'm) HttpRequest \<Rightarrow> 's \<Rightarrow> (ApiError + ('mq, 'row, 'fl) ApiPaginatedQueryResults) \<times> 's) \<Rightarrow>
   string \<Rightarrow> ('f, 'm) PaginatedMetricQueryRequestParams \<Rightarrow> ('s, ('df, 'f, 'm) HttpRequest) Net \<Rightarrow>
   ((ApiError + ('mq, 'row, 'fl) ApiQueryResults) \<times> ('s, ('df, 'f, 'm) HttpRequest) Net) option" where
  "getQueryPaginatedResults respond project data net =
     (case lightdashApi respond (paginatedQueryRequest project data) net of
        (Inl e, net') \<Rightarrow> Some (Inl e, net')
      | (Inr firstPage, net') \<Rightarrow>
          (case getAllPageRows respond project (pageQueryUuid firstPage) firstPage
                  (pageRows firstPage) net' of
             None \<Rightarrow> None
           | Some (Inl e, net'') \<Rightarrow> Some (Inl e, net'')
           | Some (Inr allRows, net'') \<Rightarrow>
               Some (Inr \<lparr>metricQuery = pageMetricQuery firstPage,
                          cacheMetadata = \<lparr>cacheHit = False\<rparr>,
                          rows = allRows,
                          resultFields = pageFields firstPage,
                          queryUuid = Some (pageQueryUuid firstPage)\<rparr>,
                     net'')))"

text \<open>An execution of a paginated query as the specification describes it: after the page
  \<open>currentPage\<close> the backend serves the pages \<open>pages\<close>, each requested with the
  next-page token of the page before it; every page but the last carries a next-page
  token, the last does not. \<open>net'\<close> is the network after the last page.\<close>

fun servesPages ::
  "(('df, 'f, 'm) HttpRequest \<Rightarrow> 's \<Rightarrow> (ApiError + ('mq, 'row, 'fl) ApiPaginatedQueryResults) \<times> 's) \<Rightarrow>
   string \<Rightarrow> string \<Rightarrow> ('mq, 'row, 'fl) ApiPaginatedQueryResults \<Rightarrow>
   ('s, ('df, 'f, 'm) HttpRequest) Net \<Rightarrow> ('mq, 'row, 'fl) ApiPaginatedQueryResults list \<Rightarrow>
   ('s, ('df, 'f, 'm) HttpRequest) Net \<Rightarrow> bool" where
  "servesPages respond project firstQueryUuid currentPage net [] net' =
     (\<not> truthyNumber (nextPage currentPage) \<and> net' = net)"
| "servesPages respond project firstQueryUuid currentPage net (page # pages) net' =
     (truthyNumber (nextPage currentPage) \<and>
      (case lightdashApi respond
              (paginatedPageRequest project firstQueryUuid (nextPage currentPage)) net of
         (Inl e, net1) \<Rightarrow> False
       | (Inr served, net1) \<Rightarrow>
           served = page \<and> servesPages respond project firstQueryUuid page net1 pages net'))"

subsection \<open>\<^verbatim>\<open>useQueryResults\<close>\<close>

text \<open>A promise of an API call as the promise \<open>queryFn\<close> returns.\<close>

definition apiPromise :: "(ApiError + 'r) \<times> 'w \<Rightarrow> ((QueryError + 'r) \<times> 'w) option" where
  "apiPromise settled = Some (map_sum ApiFailure id (fst settled), snd settled)"

definition queryWithOverrides ::
  "('f \<Rightarrow> 'f) \<Rightarrow> ('f, 'm) QueryResultsProps \<Rightarrow> ('f, 'm) MetricQuery \<Rightarrow>
   ('f, 'm) PaginatedMetricQueryRequestParams" where
  "queryWithOverrides convertDateFilters props q =
     \<lparr>requestContext = EXPLORE,
      requestQuery =
        \<lparr>spreadQuery = q\<lparr>filters := convertDateFilters (filters q),
                          timezone := nullishToUndefined (timezone q)\<rparr>,
         exploreName = tableId props,
         queryGranularity = dateZoomGranularity props\<rparr>\<rparr>"

text \<open>The \<^verbatim>\<open>queryFn\<close> of \<^verbatim>\<open>useQueryResults\<close>. With \<^verbatim>\<open>data\<close> null every
  \<^verbatim>\<open>data?.\<close> test is falsy and the promise is rejected.\<close>

definition queryResultsFn ::
  "(('df, 'f, 'm) HttpRequest \<Rightarrow> 's \<Rightarrow> (ApiError + ('mq, 'row, 'fl) ApiQueryResults) \<times> 's) \<Rightarrow>
   (('df, 'f, 'm) HttpRequest \<Rightarrow> 's \<Rightarrow> (ApiError + ('mq, 'row, 'fl) ApiPaginatedQueryResults) \<times> 's) \<Rightarrow>
   ('f \<Rightarrow> 'f) \<Rightarrow> bool \<Rightarrow> ('f, 'm) QueryResultsProps option \<Rightarrow> ('s, ('df, 'f, 'm) HttpRequest) Net \<Rightarrow>
   ((QueryError + ('mq, 'row, 'fl) ApiQueryResults) \<times> ('s, ('df, 'f, 'm) HttpRequest) Net) option" where
  "queryResultsFn respond respondPage convertDateFilters queryPaginationEnabled data net =
     (case data of
        None \<Rightarrow> Some (Inl (ParameterError ''Missing QueryResultsProps''), net)
      | Some props \<Rightarrow>
          if truthyString (chartUuid props) \<and> truthyString (chartVersionUuid props) then
            apiPromise
              (getChartVersionResults respond (interpolate ''undefined'' (chartUuid props))
                 (interpolate ''undefined'' (chartVersionUuid props)) net)
          else if truthyString (chartUuid props) then
            apiPromise (getChartResults respond (chartUuid props) (queryContext props) net)
          else
            (case query props of
               Some q \<Rightarrow>
                 if queryPaginationEnabled then
                   (case getQueryPaginatedResults respondPage (projectUuid props)
                           (queryWithOverrides convertDateFilters props q) net of
                      None \<Rightarrow> None
                    | Some settled \<Rightarrow> apiPromise settled)
                 else apiPromise (getQueryResults respond convertDateFilters props net)
             | None \<Rightarrow> Some (Inl (ParameterError ''Missing QueryResultsProps''), net)))"

definition queryResultsOptions ::
  "(('df, 'f, 'm) HttpRequest \<Rightarrow> 's \<Rightarrow> (ApiError + ('mq, 'row, 'fl) ApiQueryResults) \<times> 's) \<Rightarrow>
   (('df, 'f, 'm) HttpRequest \<Rightarrow> 's \<Rightarrow> (ApiError + ('mq, 'row, 'fl) ApiPaginatedQueryResults) \<times> 's) \<Rightarrow>
   ('f \<Rightarrow> 'f) \<Rightarrow> bool \<Rightarrow> ('f, 'm) QueryResultsProps option \<Rightarrow>
   (string \<times> ('f, 'm) QueryResultsProps option, ('s, ('df, 'f, 'm) HttpRequest) Net, QueryError,
    ('mq, 'row, 'fl) ApiQueryResults) UseQueryOptions" where
  "queryResultsOptions respond respondPage convertDateFilters queryPaginationEnabled data =
     \<lparr>queryKey = (''query-all-results'', data),
      queryFn = queryResultsFn respond respondPage convertDateFilters queryPaginationEnabled data,
      enabled = Some (data \<noteq> None),
      retry = None,
      refetchOnMount = None\<rparr>"

text \<open>The hook: the query, then the effect that hands \<^verbatim>\<open>result.error\<close> to
  \<^verbatim>\<open>setErrorResponse\<close>. The last component is the list of errors reported so far.\<close>

definition useQueryResults ::
  "RetryValue \<Rightarrow>
   (('df, 'f, 'm) HttpRequest \<Rightarrow> 's \<Rightarrow> (ApiError + ('mq, 'row, 'fl) ApiQueryResults) \<times> 's) \<Rightarrow>
   (('df, 'f, 'm) HttpRequest \<Rightarrow> 's \<Rightarrow> (ApiError + ('mq, 'row, 'fl) ApiPaginatedQueryResults) \<times> 's) \<Rightarrow>
   ('f \<Rightarrow> 'f) \<Rightarrow> bool \<Rightarrow> ('f, 'm) QueryResultsProps option \<Rightarrow>
   ('s, ('df, 'f, 'm) HttpRequest) Net \<Rightarrow> QueryError list \<Rightarrow>
   ((QueryError, ('mq, 'row, 'fl) ApiQueryResults) UseQueryResult \<times>
    ('s, ('df, 'f, 'm) HttpRequest) Net \<times> QueryError list) option" where
  "useQueryResults clientRetry respond respondPage convertDateFilters queryPaginationEnabled data net
       errorResponses =
     (case useQuery clientRetry
             (queryResultsOptions respond respondPage convertDateFilters queryPaginationEnabled data)
             net of
        None \<Rightarrow> None
      | Some (result, net') \<Rightarrow>
          Some (result, net',
                (case resultError result of
                   Some e \<Rightarrow> errorResponses @ [e]
                 | None \<Rightarrow> errorResponses)))"

section \<open>Spreadsheet export client (GoogleDriveClient.ts)\<close>

subsection \<open>Cell values\<close>

text \<open>The values a result cell can hold. Numbers and a date's time value are carried as
  integers: the client passes them on and never computes with them. A set lists its
  elements in insertion order, a plain object its own enumerable properties. A function
  is carried by its name: the client meets functions only as the members that an object
  inherits.\<close>

datatype JsValue =
    JsUndefined
  | JsNull
  | JsBoolean bool
  | JsNumber int
  | JsString string
  | JsArray "JsValue list"
  | JsRegExp string
  | JsSet "JsValue list"
  | JsDate int
  | JsBoxedNumber int
  | JsBoxedBoolean bool
  | JsBoxedString string
  | JsObject "(string \<times> JsValue) list"
  | JsFunction string

fun isArray :: "JsValue \<Rightarrow> bool" where
  "isArray (JsArray xs) = True"
| "isArray v = False"

fun instanceofRegExp :: "JsValue \<Rightarrow> bool" where
  "instanceofRegExp (JsRegExp src) = True"
| "instanceofRegExp v = False"

fun instanceofSet :: "JsValue \<Rightarrow> bool" where
  "instanceofSet (JsSet xs) = True"
| "instanceofSet v = False"

fun instanceofDate :: "JsValue \<Rightarrow> bool" where
  "instanceofDate (JsDate t) = True"
| "instanceofDate v = False"

fun instanceofNumber :: "JsValue \<Rightarrow> bool" where
  "instanceofNumber (JsBoxedNumber n) = True"
| "instanceofNumber v = False"

fun instanceofBoolean :: "JsValue \<Rightarrow> bool" where
  "instanceofBoolean (JsBoxedBoolean b) = True"
| "instanceofBoolean v = False"

fun instanceofString :: "JsValue \<Rightarrow> bool" where
  "instanceofString (JsBoxedString s) = True"
| "instanceofString v = False"

fun typeofValue :: "JsValue \<Rightarrow> string" where
  "typeofValue JsUndefined = ''undefined''"
| "typeofValue (JsBoolean b) = ''boolean''"
| "typeofValue (JsNumber n) = ''number''"
| "typeofValue (JsString s) = ''string''"
| "typeofValue (JsFunction name) = ''function''"
| "typeofValue v = ''object''"

fun truthy :: "JsValue \<Rightarrow> bool" where
  "truthy JsUndefined = False"
| "truthy JsNull = False"
| "truthy (JsBoolean b) = b"
| "truthy (JsNumber n) = (n \<noteq> 0)"
| "truthy (JsString s) = (s \<noteq> [])"
| "truthy v = True"

text \<open>The elements of an array or a set, the source of a regular expression and
  \<^verbatim>\<open>valueOf()\<close> of a wrapper object.\<close>

fun elements :: "JsValue \<Rightarrow> JsValue list" where
  "elements (JsArray xs) = xs"
| "elements (JsSet xs) = xs"
| "elements v = []"

fun regExpSource :: "JsValue \<Rightarrow> string" where
  "regExpSource (JsRegExp src) = src"
| "regExpSource v = []"

fun valueOf :: "JsValue \<Rightarrow> JsValue" where
  "valueOf (JsBoxedNumber n) = JsNumber n"
| "valueOf (JsBoxedBoolean b) = JsBoolean b"
| "valueOf (JsBoxedString s) = JsString s"
| "valueOf v = v"

text \<open>What the language runtime does with a value: its conversion to a string and
  \<^verbatim>\<open>JSON.stringify\<close>. Both are parameters.\<close>

record JsRuntime =
  toText :: "JsValue \<Rightarrow> string"
  jsonStringify :: "JsValue \<Rightarrow> string"

text \<open>\<^verbatim>\<open>join\<close> prints \<^verbatim>\<open>undefined\<close> and \<^verbatim>\<open>null\<close> elements as the empty string and a
  string as itself.\<close>

fun joinElement :: "JsRuntime \<Rightarrow> JsValue \<Rightarrow> string" where
  "joinElement rt JsUndefined = ''''"
| "joinElement rt JsNull = ''''"
| "joinElement rt (JsString s) = s"
| "joinElement rt v = toText rt v"

definition joinValues :: "JsRuntime \<Rightarrow> string \<Rightarrow> JsValue list \<Rightarrow> string" where
  "joinValues rt sep xs = joinStrings sep (map (joinElement rt) xs)"

subsection \<open>Items and \<^verbatim>\<open>formatCell\<close>\<close>

text \<open>What the client uses of \<^verbatim>\<open>@lightdash/common\<close>, as parameters: the guards
  \<^verbatim>\<open>isField\<close> and \<^verbatim>\<open>isDimension\<close>, the properties \<^verbatim>\<open>type\<close> and
  \<^verbatim>\<open>timeInterval\<close> of an item, the constant \<^verbatim>\<open>DimensionType.DATE\<close>, the date
  formatter and the two label functions.\<close>

record ('item, 'ty, 'ti) Common =
  isField :: "'item \<Rightarrow> bool"
  isDimension :: "'item \<Rightarrow> bool"
  itemType :: "'item \<Rightarrow> 'ty"
  dimensionTypeDATE :: 'ty
  timeInterval :: "'item \<Rightarrow> 'ti option"
  formatDate :: "JsValue \<Rightarrow> 'ti option \<Rightarrow> string"
  getItemLabel :: "'item \<Rightarrow> string"
  getItemLabelWithoutTableName :: "'item \<Rightarrow> string"

text \<open>\<^verbatim>\<open>isField(item) && item.type === DimensionType.DATE\<close>; an item that is
  \<^verbatim>\<open>undefined\<close> is no field.\<close>

definition isDateField :: "('item, 'ty, 'ti) Common \<Rightarrow> 'item option \<Rightarrow> bool" where
  "isDateField c item =
     (case item of None \<Rightarrow> False | Some i \<Rightarrow> isField c i \<and> itemType c i = dimensionTypeDATE c)"

definition dateTimeInterval :: "('item, 'ty, 'ti) Common \<Rightarrow> 'item option \<Rightarrow> 'ti option" where
  "dateTimeInterval c item =
     (case item of None \<Rightarrow> None | Some i \<Rightarrow> if isDimension c i then timeInterval c i else None)"

definition formatCell :: "('item, 'ty, 'ti) Common \<Rightarrow> JsRuntime \<Rightarrow> JsValue \<Rightarrow> 'item option \<Rightarrow> JsValue" where
  "formatCell c rt v item =
     (if isArray v then JsString (joinValues rt '','' (elements v))
      else if instanceofRegExp v then JsString (regExpSource v)
      else if instanceofSet v then JsString (joinValues rt '','' (elements v))
      else if isDateField c item then JsString (formatDate c v (dateTimeInterval c item))
      else if typeofValue v = ''object'' \<and>
              (instanceofNumber v \<or> instanceofBoolean v \<or> instanceofString v)
        then valueOf v
      else if truthy v \<and> typeofValue v = ''object'' \<and> \<not> instanceofDate v
        then JsString (jsonStringify rt v)
      else v)"

subsection \<open>Errors, the provider and the log\<close>

text \<open>What the client reads of an error the spreadsheet provider's SDK rejects with:
  \<^verbatim>\<open>response.status\<close>, \<^verbatim>\<open>response.data.error\<close>,
  \<^verbatim>\<open>response.data.error_description\<close>, \<^verbatim>\<open>code\<close> (a number or a string) and
  \<^verbatim>\<open>errors\<close>. A property that is missing is \<open>None\<close>.\<close>

datatype ErrorCode = CodeNumber nat | CodeText string

record ErrorDetail =
  detailMessage :: "string option"

record ResponseData =
  dataError :: "string option"
  dataErrorDescription :: "string option"

record ErrorResponse =
  responseStatus :: nat
  responseData :: "ResponseData option"

record ProviderError =
  errResponse :: "ErrorResponse option"
  errCode :: "ErrorCode option"
  errErrors :: "ErrorDetail list option"

text \<open>What an operation of the client throws: the error classes of
  \<^verbatim>\<open>@lightdash/common\<close>, a provider error thrown on as it is, and the runtime's
  \<^verbatim>\<open>TypeError\<close>.\<close>

datatype Failure =
    MissingConfigError string
  | ForbiddenError string
  | GoogleSheetsTransientError Failure
  | UnexpectedGoogleSheetsError string
  | ProviderFailure ProviderError
  | TypeError string

text \<open>\<^verbatim>\<open>error.code\<close> and \<^verbatim>\<open>error.errors\<close> of a caught error: an error class of
  \<^verbatim>\<open>@lightdash/common\<close> has neither.\<close>

fun failureCode :: "Failure \<Rightarrow> ErrorCode option" where
  "failureCode (ProviderFailure err) = errCode err"
| "failureCode f = None"

fun failureErrors :: "Failure \<Rightarrow> ErrorDetail list option" where
  "failureErrors (ProviderFailure err) = errErrors err"
| "failureErrors f = None"

datatype ValueInputOption = RAW | USER_ENTERED

datatype SheetsCall =
    BatchUpdateAddSheet string string
  | SpreadsheetsCreate string
  | SpreadsheetsGet string
  | ValuesClear string string
  | ValuesUpdate string string ValueInputOption "JsValue list list"

text \<open>The two calls that write to a spreadsheet or create one, told from the calls
  that add a tab, read or clear.\<close>

fun isValuesUpdate :: "SheetsCall \<Rightarrow> bool" where
  "isValuesUpdate (ValuesUpdate fileId writtenRange inputOption writtenValues) = True"
| "isValuesUpdate call = False"

fun isSpreadsheetsCreate :: "SheetsCall \<Rightarrow> bool" where
  "isSpreadsheetsCreate (SpreadsheetsCreate newTitle) = True"
| "isSpreadsheetsCreate call = False"

record SheetProperties =
  sheetTitle :: "string option"

record Sheet =
  sheetProperties :: "SheetProperties option"

record Spreadsheet =
  spreadsheetSheets :: "Sheet list option"

datatype LogEntry = LogDebug string | LogInfo string | LogError string Failure

text \<open>The world the client acts on: the provider's state, the calls made to the
  provider so far, each with what the provider answered, and the lines logged so far,
  both in order.\<close>

record 'p World =
  provider :: 'p
  calls :: "(SheetsCall \<times> (ProviderError + Spreadsheet)) list"
  logs :: "LogEntry list"

text \<open>The calls made on the way from one world to a later one.\<close>

definition newCalls :: "'p World \<Rightarrow> 'p World \<Rightarrow> (SheetsCall \<times> (ProviderError + Spreadsheet)) list" where
  "newCalls w w' = drop (length (calls w)) (calls w')"

definition logLine :: "LogEntry \<Rightarrow> 'p World \<Rightarrow> 'p World" where
  "logLine entry w = w\<lparr>logs := logs w @ [entry]\<rparr>"

record Credentials =
  credentialsType :: string
  client_id :: "string option"
  client_secret :: "string option"
  refresh_token :: string

text \<open>The provider's SDK, as parameters: building the auth object from credentials
  (or the text of what it throws) and the provider's response to a call made with an
  auth object, in a provider state.\<close>

record ('auth, 'p) GoogleSdk =
  authFromJSON :: "Credentials \<Rightarrow> string + 'auth"
  sheetsApi :: "'auth \<Rightarrow> SheetsCall \<Rightarrow> 'p \<Rightarrow> (ProviderError + Spreadsheet) \<times> 'p"

definition callSheets ::
  "('auth, 'p) GoogleSdk \<Rightarrow> 'auth \<Rightarrow> SheetsCall \<Rightarrow> 'p World \<Rightarrow> (ProviderError + Spreadsheet) \<times> 'p World" where
  "callSheets sdk auth call w =
     (case sheetsApi sdk auth call (provider w) of
        (settled, p') \<Rightarrow> (settled, w\<lparr>provider := p', calls := calls w @ [(call, settled)]\<rparr>))"

subsection \<open>The client\<close>

record GoogleAuthConfig =
  oauth2ClientId :: "string option"
  oauth2ClientSecret :: "string option"

record GoogleDriveClient =
  lightdashConfig :: GoogleAuthConfig
  isEnabled :: bool

definition newGoogleDriveClient :: "GoogleAuthConfig \<Rightarrow> GoogleDriveClient" where
  "newGoogleDriveClient config =
     \<lparr>lightdashConfig = config,
      isEnabled = (oauth2ClientId config \<noteq> None \<and> oauth2ClientSecret config \<noteq> None)\<rparr>"

definition getCredentials ::
  "('auth, 'p) GoogleSdk \<Rightarrow> GoogleDriveClient \<Rightarrow> string \<Rightarrow> Failure + 'auth" where
  "getCredentials sdk client refreshToken =
     (case authFromJSON sdk
             \<lparr>credentialsType = ''authorized_user'',
              client_id = oauth2ClientId (lightdashConfig client),
              client_secret = oauth2ClientSecret (lightdashConfig client),
              refresh_token = refreshToken\<rparr> of
        Inl err \<Rightarrow> Inl (ForbiddenError (''Failed to get credentials: '' @ err))
      | Inr auth \<Rightarrow> Inr auth)"

text \<open>\<^verbatim>\<open>err?.response?.status\<close>\<close>

definition errStatus :: "ProviderError \<Rightarrow> nat option" where
  "errStatus err = map_option responseStatus (errResponse err)"

definition catchForbiddenError :: "ProviderError + 'a \<Rightarrow> Failure + 'a" where
  "catchForbiddenError settled =
     (case settled of
        Inr v \<Rightarrow> Inr v
      | Inl err \<Rightarrow>
          if errStatus err = Some 401 then
            Inl (ForbiddenError
                   (''Failed to authorize: '' @
                    interpolate ''undefined''
                      (Option.bind (Option.bind (errResponse err) responseData) dataError) @
                    '': '' @
                    interpolate ''undefined''
                      (Option.bind (Option.bind (errResponse err) responseData)
                         dataErrorDescription)))
          else if errStatus err = Some 400 \<and>
                  Option.bind (Option.bind (errResponse err) responseData) dataError =
                    Some ''invalid_grant'' then
            Inl (ForbiddenError
                   (''Failed to refresh token: '' @
                    interpolate ''undefined''
                      (Option.bind (Option.bind (errResponse err) responseData) dataError) @
                    '': '' @
                    interpolate ''undefined''
                      (Option.bind (Option.bind (errResponse err) responseData)
                         dataErrorDescription)))
          else Inl (ProviderFailure err))"

text \<open>A provider call wrapped in \<^verbatim>\<open>catchForbiddenError\<close>.\<close>

definition guardedCall ::
  "('auth, 'p) GoogleSdk \<Rightarrow> 'auth \<Rightarrow> SheetsCall \<Rightarrow> 'p World \<Rightarrow> (Failure + Spreadsheet) \<times> 'p World" where
  "guardedCall sdk auth call w =
     (case callSheets sdk auth call w of (settled, w') \<Rightarrow> (catchForbiddenError settled, w'))"

text \<open>\<^verbatim>\<open>tabName.replaceAll(':', '.')\<close> and \<^verbatim>\<open>text.includes(part)\<close>.\<close>

definition replaceColons :: "string \<Rightarrow> string" where
  "replaceColons s = map (\<lambda>ch. if ch = CHR '':'' then CHR ''.'' else ch) s"

fun startsWith :: "string \<Rightarrow> string \<Rightarrow> bool" where
  "startsWith s [] = True"
| "startsWith [] (p # ps) = False"
| "startsWith (x # xs) (p # ps) = (x = p \<and> startsWith xs ps)"

fun stringIncludes :: "string \<Rightarrow> string \<Rightarrow> bool" where
  "stringIncludes [] part = (part = [])"
| "stringIncludes (x # xs) part = (startsWith (x # xs) part \<or> stringIncludes xs part)"

text \<open>The handler given to \<^verbatim>\<open>.catch\<close> in \<^verbatim>\<open>createNewTab\<close>. Reading
  \<^verbatim>\<open>errors[0]\<close> of an error without \<^verbatim>\<open>errors\<close>, or \<^verbatim>\<open>includes\<close> of a missing
  message, throws a \<^verbatim>\<open>TypeError\<close>.\<close>

definition tabCatchHandler :: "string \<Rightarrow> Failure \<Rightarrow> 'p World \<Rightarrow> (Failure + unit) \<times> 'p World" where
  "tabCatchHandler tabName error w =
     (let otherwise =
            (if failureCode error = Some (CodeNumber 500)
             then (Inl (GoogleSheetsTransientError error), w)
             else (Inr (), w))
      in if failureCode error = Some (CodeNumber 400) then
           (case failureErrors error of
              None \<Rightarrow> (Inl (TypeError ''Cannot read properties of undefined''), w)
            | Some [] \<Rightarrow> otherwise
            | Some (first # others) \<Rightarrow>
                (case detailMessage first of
                   None \<Rightarrow> (Inl (TypeError ''Cannot read properties of undefined''), w)
                 | Some msg \<Rightarrow>
                     if stringIncludes msg tabName then
                       (Inr (),
                        logLine
                          (LogDebug
                             (''Google sheet tab already exists, we will overwrite it: '' @ msg))
                          w)
                     else otherwise))
         else otherwise)"

definition createNewTab ::
  "('auth, 'p) GoogleSdk \<Rightarrow> GoogleDriveClient \<Rightarrow> string \<Rightarrow> string \<Rightarrow> string \<Rightarrow> 'p World \<Rightarrow>
   (Failure + string) \<times> 'p World" where
  "createNewTab sdk client refreshToken fileId tabName w =
     (if \<not> isEnabled client then (Inl (MissingConfigError ''Google Drive is not enabled''), w)
      else
        (case getCredentials sdk client refreshToken of
           Inl f \<Rightarrow> (Inl f, w)
         | Inr auth \<Rightarrow>
             (let tabTitle = replaceColons tabName in
              case guardedCall sdk auth (BatchUpdateAddSheet fileId tabTitle) w of
                (Inr created, w1) \<Rightarrow> (Inr tabTitle, w1)
              | (Inl error, w1) \<Rightarrow>
                  (case tabCatchHandler tabName error w1 of
                     (Inl f, w2) \<Rightarrow> (Inl f, w2)
                   | (Inr handled, w2) \<Rightarrow> (Inr tabTitle, w2)))))"

definition createNewSheet ::
  "('auth, 'p) GoogleSdk \<Rightarrow> GoogleDriveClient \<Rightarrow> string \<Rightarrow> string \<Rightarrow> 'p World \<Rightarrow>
   (Failure + Spreadsheet) \<times> 'p World" where
  "createNewSheet sdk client refreshToken newTitle w =
     (if \<not> isEnabled client then (Inl (MissingConfigError ''Google Drive is not enabled''), w)
      else
        (case getCredentials sdk client refreshToken of
           Inl f \<Rightarrow> (Inl f, w)
         | Inr auth \<Rightarrow> guardedCall sdk auth (SpreadsheetsCreate newTitle) w))"

text \<open>The \<^verbatim>\<open>try\<close> block of \<^verbatim>\<open>clearTabName\<close>. In
  \<^verbatim>\<open>spreadsheet.data.sheets?.[0].properties?.title\<close> an empty \<^verbatim>\<open>sheets\<close> makes
  \<^verbatim>\<open>sheets[0]\<close> undefined, and reading \<^verbatim>\<open>properties\<close> of it throws.\<close>

definition firstSheetTitle :: "Spreadsheet \<Rightarrow> Failure + string option" where
  "firstSheetTitle spreadsheet =
     (case spreadsheetSheets spreadsheet of
        None \<Rightarrow> Inr None
      | Some [] \<Rightarrow> Inl (TypeError ''Cannot read properties of undefined'')
      | Some (first # others) \<Rightarrow> Inr (Option.bind (sheetProperties first) sheetTitle))"

definition clearTabNameTry ::
  "('auth, 'p) GoogleSdk \<Rightarrow> 'auth \<Rightarrow> string \<Rightarrow> string option \<Rightarrow> 'p World \<Rightarrow> (Failure + unit) \<times> 'p World" where
  "clearTabNameTry sdk auth fileId tabName w =
     (case tabName of
        None \<Rightarrow>
          (case guardedCall sdk auth (SpreadsheetsGet fileId) w of
             (Inl f, w1) \<Rightarrow> (Inl f, w1)
           | (Inr spreadsheet, w1) \<Rightarrow>
               (case firstSheetTitle spreadsheet of
                  Inl f \<Rightarrow> (Inl f, w1)
                | Inr firstSheetName \<Rightarrow>
                    if \<not> truthyString firstSheetName then
                      (Inl (UnexpectedGoogleSheetsError
                              ''Unable to find the first sheet name in the spreadsheet''), w1)
                    else
                      (case guardedCall sdk auth
                              (ValuesClear fileId (interpolate ''undefined'' firstSheetName))
                              (logLine
                                 (LogDebug (''Clearing first sheet name '' @
                                            interpolate ''undefined'' firstSheetName))
                                 w1) of
                         (Inl f, w2) \<Rightarrow> (Inl f, w2)
                       | (Inr cleared, w2) \<Rightarrow> (Inr (), w2))))
      | Some t \<Rightarrow>
          (case guardedCall sdk auth (ValuesClear fileId t)
                  (logLine (LogDebug (''Clearing sheet name '' @ t)) w) of
             (Inl f, w1) \<Rightarrow> (Inl f, w1)
           | (Inr cleared, w1) \<Rightarrow> (Inr (), w1)))"

text \<open>\<^verbatim>\<open>clearTabName\<close>: the \<^verbatim>\<open>try\<close> block and its \<^verbatim>\<open>catch\<close>.\<close>

definition clearTabName ::
  "('auth, 'p) GoogleSdk \<Rightarrow> 'auth \<Rightarrow> string \<Rightarrow> string option \<Rightarrow> 'p World \<Rightarrow> (Failure + unit) \<times> 'p World" where
  "clearTabName sdk auth fileId tabName w =
     (case clearTabNameTry sdk auth fileId tabName w of
        (Inl error, w1) \<Rightarrow> (Inr (), logLine (LogError ''Unable to clear the sheet'' error) w1)
      | (Inr done, w1) \<Rightarrow> (Inr done, w1))"

text \<open>A length printed in a template literal.\<close>

fun showNat :: "nat \<Rightarrow> string" where
  "showNat n =
     (if n < 10 then [''0123456789'' ! n]
      else showNat (n div 10) @ [''0123456789'' ! (n mod 10)])"

declare showNat.simps [simp del]

text \<open>\<^verbatim>\<open>uploadMetadata\<close>; \<open>now\<close> is \<^verbatim>\<open>new Date().toLocaleString()\<close>.\<close>

definition uploadMetadata ::
  "('auth, 'p) GoogleSdk \<Rightarrow> GoogleDriveClient \<Rightarrow> string \<Rightarrow> string \<Rightarrow> string \<Rightarrow> string \<Rightarrow>
   string list option \<Rightarrow> string option \<Rightarrow> 'p World \<Rightarrow> (Failure + unit) \<times> 'p World" where
  "uploadMetadata sdk client now refreshToken fileId updateFrequency tabs reportUrl w =
     (if \<not> isEnabled client then (Inl (MissingConfigError ''Google Drive is not enabled''), w)
      else
        (case getCredentials sdk client refreshToken of
           Inl f \<Rightarrow> (Inl f, w)
         | Inr auth \<Rightarrow>
             (case createNewTab sdk client refreshToken fileId ''metadata'' w of
                (Inl f, w1) \<Rightarrow> (Inl f, w1)
              | (Inr created, w1) \<Rightarrow>
                  (case clearTabName sdk auth fileId (Some ''metadata'') w1 of
                     (Inl f, w2) \<Rightarrow> (Inl f, w2)
                   | (Inr cleared, w2) \<Rightarrow>
                       (let tabsUpdated =
                              (case tabs of
                                 Some ts \<Rightarrow>
                                   map (\<lambda>(i, t). [if i = 0 then ''Tabs updated'' else '''', t])
                                     (enumerate 0 ts)
                               | None \<Rightarrow> [[]]);
                            metadataRows =
                              [[''The data in this Google Sheet has been automatically synced via Lightdash''],
                               [''Update frequency:'', updateFrequency],
                               [''Time of last sync:'', now]] @
                              (if truthyString reportUrl
                               then [[''Report URL:'', interpolate ''undefined'' reportUrl]]
                               else []) @
                              tabsUpdated
                        in case guardedCall sdk auth
                                  (ValuesUpdate fileId (''metadata'' @ ''!A1'') USER_ENTERED
                                     (map (map JsString) metadataRows))
                                  w2 of
                             (Inl f, w3) \<Rightarrow> (Inl f, w3)
                           | (Inr updated, w3) \<Rightarrow> (Inr (), w3))))))"

subsection \<open>\<^verbatim>\<open>appendToSheet\<close> and \<^verbatim>\<open>appendCsvToSheet\<close>\<close>

definition appendCsvToSheet ::
  "('auth, 'p) GoogleSdk \<Rightarrow> GoogleDriveClient \<Rightarrow> string \<Rightarrow> string \<Rightarrow> JsValue list list \<Rightarrow>
   string option \<Rightarrow> 'p World \<Rightarrow> (Failure + unit) \<times> 'p World" where
  "appendCsvToSheet sdk client refreshToken fileId results tabName w =
     (if \<not> isEnabled client then (Inl (MissingConfigError ''Google Drive is not enabled''), w)
      else
        (case results of
           [] \<Rightarrow> (Inr (), logLine (LogInfo ''No data to write to the sheet'') w)
         | firstResult # moreResults \<Rightarrow>
             (case getCredentials sdk client refreshToken of
                Inl f \<Rightarrow> (Inl f, w)
              | Inr auth \<Rightarrow>
                  (case (if truthyString tabName then
                           (case createNewTab sdk client refreshToken fileId
                                   (interpolate ''undefined'' tabName)
                                   (logLine
                                      (LogInfo (''Creating new tab '' @
                                                interpolate ''undefined'' tabName @
                                                '' on Google sheets''))
                                      w) of
                              (Inl f, w1) \<Rightarrow> (Inl f, w1)
                            | (Inr tabTitle, w1) \<Rightarrow> (Inr (Some tabTitle), w1))
                         else (Inr None, w)) of
                     (Inl f, w1) \<Rightarrow> (Inl f, w1)
                   | (Inr sanitizedTabName, w1) \<Rightarrow>
                       (case clearTabName sdk auth fileId tabName w1 of
                          (Inl f, w2) \<Rightarrow> (Inl f, w2)
                        | (Inr cleared, w2) \<Rightarrow>
                            (case guardedCall sdk auth
                                    (ValuesUpdate fileId
                                       (if truthyString sanitizedTabName
                                        then interpolate ''undefined'' sanitizedTabName @ ''!A1''
                                        else ''A1'')
                                       RAW results)
                                    (logLine
                                       (LogInfo (''Writing '' @ showNat (length results) @
                                                 '' rows and '' @ showNat (length firstResult) @
                                                 '' columns to Google sheets''))
                                       w2) of
                               (Inl f, w3) \<Rightarrow> (Inl f, w3)
                             | (Inr updated, w3) \<Rightarrow> (Inr (), w3)))))))"

text \<open>\<^verbatim>\<open>list.indexOf(x)\<close>: the first position of \<open>x\<close>, or \<open>-1\<close>.\<close>

fun indexOf :: "'a list \<Rightarrow> 'a \<Rightarrow> int" where
  "indexOf [] a = - 1"
| "indexOf (x # xs) a =
     (if x = a then 0 else (let i = indexOf xs a in if i < 0 then - 1 else i + 1))"

text \<open>The rows, \<^verbatim>\<open>customLabels\<close> (by default \<^verbatim>\<open>{}\<close>) and \<^verbatim>\<open>itemMap\<close> are plain objects.
  \<^verbatim>\<open>object[key]\<close> is the object's own property when it has one of that name, and otherwise
  what \<^verbatim>\<open>Object.prototype\<close> has under that name: the constructor \<^verbatim>\<open>Object\<close>, the
  built-in methods, and under \<^verbatim>\<open>__proto__\<close> the prototype itself, an object without
  enumerable properties. Only for the remaining names is it \<^verbatim>\<open>undefined\<close>.\<close>

definition objectPrototype :: "(string \<times> JsValue) list" where
  "objectPrototype =
     [(''constructor'', JsFunction ''Object''),
      (''__defineGetter__'', JsFunction ''__defineGetter__''),
      (''__defineSetter__'', JsFunction ''__defineSetter__''),
      (''hasOwnProperty'', JsFunction ''hasOwnProperty''),
      (''__lookupGetter__'', JsFunction ''__lookupGetter__''),
      (''__lookupSetter__'', JsFunction ''__lookupSetter__''),
      (''isPrototypeOf'', JsFunction ''isPrototypeOf''),
      (''propertyIsEnumerable'', JsFunction ''propertyIsEnumerable''),
      (''toString'', JsFunction ''toString''),
      (''valueOf'', JsFunction ''valueOf''),
      (''__proto__'', JsObject []),
      (''toLocaleString'', JsFunction ''toLocaleString'')]"

definition inheritedMember :: "string \<Rightarrow> JsValue option" where
  "inheritedMember name = map_of objectPrototype name"

definition isInherited :: "string \<Rightarrow> bool" where
  "isInherited name = (inheritedMember name \<noteq> None)"

text \<open>\<^verbatim>\<open>row[fieldId]\<close>, for a row given by its own properties in creation order (the
  first entry of a name is the property).\<close>

definition rowValue :: "(string \<times> JsValue) list \<Rightarrow> string \<Rightarrow> JsValue" where
  "rowValue row fid =
     (case map_of row fid of
        Some v \<Rightarrow> v
      | None \<Rightarrow> (case inheritedMember fid of Some member \<Rightarrow> member | None \<Rightarrow> JsUndefined))"

text \<open>\<^verbatim>\<open>customLabels[id]\<close>: an own label is a string.\<close>

definition customLabel :: "(string \<Rightarrow> string option) \<Rightarrow> string \<Rightarrow> JsValue" where
  "customLabel customLabels fid =
     (case customLabels fid of
        Some label \<Rightarrow> JsString label
      | None \<Rightarrow> (case inheritedMember fid of Some member \<Rightarrow> member | None \<Rightarrow> JsUndefined))"

text \<open>\<^verbatim>\<open>itemMap[id]\<close> when it is not \<^verbatim>\<open>undefined\<close>: an item of the map, or an inherited
  member. Either is what the client hands to the functions of \<^verbatim>\<open>@lightdash/common\<close>,
  so these are taken over both. An item is an object and hence truthy.\<close>

datatype 'item ItemsMapValue = OwnItem 'item | InheritedMember JsValue

definition itemOf :: "(string \<Rightarrow> 'item option) \<Rightarrow> string \<Rightarrow> 'item ItemsMapValue option" where
  "itemOf itemMap fid =
     (case itemMap fid of
        Some item \<Rightarrow> Some (OwnItem item)
      | None \<Rightarrow> map_option InheritedMember (inheritedMember fid))"

fun truthyItem :: "'item ItemsMapValue \<Rightarrow> bool" where
  "truthyItem (OwnItem item) = True"
| "truthyItem (InheritedMember member) = truthy member"

text \<open>\<^verbatim>\<open>Object.keys(row)\<close>: first the keys that are array indices (the decimal numeral,
  without leading zeros, of a number below \<open>2\<^sup>3\<^sup>2 - 1\<close>) in ascending numeric order, then
  the other keys in creation order. The value of a digit is its position among the
  digits.\<close>

definition isDigit :: "char \<Rightarrow> bool" where
  "isDigit ch = (ch \<in> set ''0123456789'')"

definition decimalValue :: "string \<Rightarrow> int" where
  "decimalValue s = foldl (\<lambda>n ch. 10 * n + indexOf ''0123456789'' ch) 0 s"

definition isArrayIndex :: "string \<Rightarrow> bool" where
  "isArrayIndex s =
     (s \<noteq> [] \<and> list_all isDigit s \<and> (hd s \<noteq> CHR ''0'' \<or> s = ''0'') \<and>
      decimalValue s < 4294967295)"

definition objectKeys :: "(string \<times> 'a) list \<Rightarrow> string list" where
  "objectKeys object =
     (let names = rev (remdups (rev (map fst object)))
      in sort_key decimalValue (filter isArrayIndex names) @
         filter (\<lambda>name. \<not> isArrayIndex name) names)"

text \<open>The keys of the first row, sorted by their position in \<^verbatim>\<open>columnOrder\<close> (the sort
  is stable), without the hidden fields.\<close>

definition sortedFieldIds :: "string list \<Rightarrow> string list \<Rightarrow> (string \<times> JsValue) list \<Rightarrow> string list" where
  "sortedFieldIds columnOrder hiddenFields firstRow =
     filter (\<lambda>fid. fid \<notin> set hiddenFields) (sort_key (indexOf columnOrder) (objectKeys firstRow))"

text \<open>The header cell of a column is whatever \<^verbatim>\<open>customLabels[id]\<close> is when that is truthy,
  a string or not.\<close>

definition csvHeader ::
  "('item ItemsMapValue, 'ty, 'ti) Common \<Rightarrow> bool \<Rightarrow> (string \<Rightarrow> string option) \<Rightarrow>
   (string \<Rightarrow> 'item option) \<Rightarrow> string list \<Rightarrow> JsValue list" where
  "csvHeader c showTableNames customLabels itemMap fieldIds =
     map (\<lambda>fid.
            if truthy (customLabel customLabels fid) then customLabel customLabels fid
            else
              (case itemOf itemMap fid of
                 None \<Rightarrow> JsString fid
               | Some item \<Rightarrow>
                   if truthyItem item then
                     JsString (if showTableNames then getItemLabel c item
                               else getItemLabelWithoutTableName c item)
                   else JsString fid))
         fieldIds"

definition csvValues ::
  "('item ItemsMapValue, 'ty, 'ti) Common \<Rightarrow> JsRuntime \<Rightarrow> (string \<Rightarrow> 'item option) \<Rightarrow>
   string list \<Rightarrow> (string \<times> JsValue) list list \<Rightarrow> JsValue list list" where
  "csvValues c rt itemMap fieldIds csvContent =
     map (\<lambda>row. map (\<lambda>fid. formatCell c rt (rowValue row fid) (itemOf itemMap fid)) fieldIds)
       csvContent"

definition appendToSheet ::
  "('auth, 'p) GoogleSdk \<Rightarrow> ('item ItemsMapValue, 'ty, 'ti) Common \<Rightarrow> JsRuntime \<Rightarrow>
   GoogleDriveClient \<Rightarrow> string \<Rightarrow> string \<Rightarrow> (string \<times> JsValue) list list \<Rightarrow>
   (string \<Rightarrow> 'item option) \<Rightarrow> bool \<Rightarrow> string option \<Rightarrow> string list \<Rightarrow>
   (string \<Rightarrow> string option) \<Rightarrow> string list \<Rightarrow> 'p World \<Rightarrow> (Failure + unit) \<times> 'p World" where
  "appendToSheet sdk c rt client refreshToken fileId csvContent itemMap showTableNames tabName
       columnOrder customLabels hiddenFields w =
     (if \<not> isEnabled client then (Inl (MissingConfigError ''Google Drive is not enabled''), w)
      else
        (case csvContent of
           [] \<Rightarrow> (Inr (), logLine (LogInfo ''No data to write to the sheet'') w)
         | firstRow # moreRows \<Rightarrow>
             (let fieldIds = sortedFieldIds columnOrder hiddenFields firstRow;
                  header = csvHeader c showTableNames customLabels itemMap fieldIds;
                  cells = csvValues c rt itemMap fieldIds csvContent
              in appendCsvToSheet sdk client refreshToken fileId (header # cells) tabName w)))"

section \<open>Example inputs\<close>

text \<open>Concrete backends, caches and requests, on which the properties below are
  evaluated.\<close>

definition exampleApiError :: ApiError where
  "exampleApiError = \<lparr>errorName = ''Error'', statusCode = 500, message = ''failed''\<rparr>"

text \<open>Backends that fail every request and count the requests they have seen: one
  for chart-and-results requests, one for query results.\<close>

definition failingBackend ::
  "(unit, unit, unit) HttpRequest \<Rightarrow> nat \<Rightarrow> (ApiError + unit ApiChartAndResults) \<times> nat" where
  "failingBackend rq s = (Inl exampleApiError, Suc s)"

definition failingResultsBackend ::
  "(unit, unit, unit) HttpRequest \<Rightarrow> nat \<Rightarrow>
   (ApiError + (string, nat, string) ApiQueryResults) \<times> nat" where
  "failingResultsBackend rq s = (Inl exampleApiError, Suc s)"

definition emptyNet :: "(nat, (unit, unit, unit) HttpRequest) Net" where
  "emptyNet = \<lparr>backend = 0, requests = []\<rparr>"

text \<open>A query cache that holds, under every key, a response whose metadata reports
  the given \<^verbatim>\<open>hasADateDimension\<close>.\<close>

definition cacheWithDateDimension ::
  "bool \<Rightarrow> unit QueryKeyPart list \<Rightarrow> unit ApiChartAndResults option" where
  "cacheWithDateDimension b k =
     Some \<lparr>chartMetricQuery = Some \<lparr>metadata = Some \<lparr>hasADateDimension = b\<rparr>\<rparr>,
           chartAndRows = ()\<rparr>"

text \<open>A backend that serves one query in three pages; the pages differ in their rows,
  their metric query and their fields.\<close>

definition examplePage ::
  "string \<Rightarrow> nat list \<Rightarrow> int option \<Rightarrow> (string, nat, string) ApiPaginatedQueryResults" where
  "examplePage label pageContent next =
     \<lparr>pageRows = pageContent, nextPage = next, pageQueryUuid = ''query-1'',
      pageMetricQuery = ''metric query of '' @ label,
      pageFields = ''fields of '' @ label\<rparr>"

definition threePageBackend ::
  "(unit, unit, unit) HttpRequest \<Rightarrow> nat \<Rightarrow>
   (ApiError + (string, nat, string) ApiPaginatedQueryResults) \<times> nat" where
  "threePageBackend rq s =
     (case body rq of
        PaginatedQueryBody d \<Rightarrow> (Inr (examplePage ''page 1'' [10, 11] (Some 2)), Suc s)
      | PaginatedPageBody q page \<Rightarrow>
          if q = ''query-1'' \<and> page = Some 2 then (Inr (examplePage ''page 2'' [20] (Some 3)), Suc s)
          else if q = ''query-1'' \<and> page = Some 3 then (Inr (examplePage ''page 3'' [30, 31] None), Suc s)
          else (Inl exampleApiError, Suc s)
      | other \<Rightarrow> (Inl exampleApiError, Suc s))"

definition exampleQuery :: "(unit, unit) MetricQuery" where
  "exampleQuery = \<lparr>filters = (), timezone = Null, otherProperties = ()\<rparr>"

definition exampleParams :: "(unit, unit) PaginatedMetricQueryRequestParams" where
  "exampleParams =
     \<lparr>requestContext = EXPLORE,
      requestQuery = \<lparr>spreadQuery = exampleQuery\<lparr>timezone := Undefined\<rparr>, exploreName = ''orders'',
                      queryGranularity = None\<rparr>\<rparr>"

text \<open>A backend that answers every request with a result that names the requested
  URL.\<close>

definition echoBackend ::
  "(unit, unit, unit) HttpRequest \<Rightarrow> nat \<Rightarrow> (ApiError + (string, nat, string) ApiQueryResults) \<times> nat" where
  "echoBackend rq s =
     (Inr \<lparr>metricQuery = url rq, cacheMetadata = \<lparr>cacheHit = True\<rparr>, rows = [],
           resultFields = ''fields'', queryUuid = None\<rparr>,
      Suc s)"

text \<open>Request configurations: one with every identifying field missing, and the same
  with a chart, a chart version or a query filled in.\<close>

definition emptyProps :: "(unit, unit) QueryResultsProps" where
  "emptyProps =
     \<lparr>projectUuid = ''project-1'', tableId = ''orders'', query = None, csvLimit = Undefined,
      chartUuid = None, chartVersionUuid = None, dateZoomGranularity = None,
      queryContext = None\<rparr>"

text \<open>An enabled client, a world in which nothing has happened yet, and a provider that
  rejects the calls a table names and answers every other call with a spreadsheet of one
  sheet. Its state counts the calls; the auth object is the refresh token.\<close>

definition exampleClient :: GoogleDriveClient where
  "exampleClient =
     newGoogleDriveClient \<lparr>oauth2ClientId = Some ''client-id'', oauth2ClientSecret = Some ''secret''\<rparr>"

definition emptyWorld :: "nat World" where
  "emptyWorld = \<lparr>provider = 0, calls = [], logs = []\<rparr>"

definition exampleSpreadsheet :: Spreadsheet where
  "exampleSpreadsheet =
     \<lparr>spreadsheetSheets = Some [\<lparr>sheetProperties = Some \<lparr>sheetTitle = Some ''Sheet1''\<rparr>\<rparr>]\<rparr>"

definition rejectingSdk :: "(SheetsCall \<Rightarrow> ProviderError option) \<Rightarrow> (string, nat) GoogleSdk" where
  "rejectingSdk rejections =
     \<lparr>authFromJSON = (\<lambda>credentials. Inr (refresh_token credentials)),
      sheetsApi = (\<lambda>auth call p.
        case rejections call of
          Some err \<Rightarrow> (Inl err, Suc p)
        | None \<Rightarrow> (Inr exampleSpreadsheet, Suc p))\<rparr>"

definition unauthorized401 :: ProviderError where
  "unauthorized401 =
     \<lparr>errResponse =
        Some \<lparr>responseStatus = 401,
              responseData = Some \<lparr>dataError = Some ''unauthorized_client'',
                                   dataErrorDescription = Some ''Unauthorized''\<rparr>\<rparr>,
      errCode = Some (CodeNumber 401), errErrors = None\<rparr>"

definition serverError500 :: ProviderError where
  "serverError500 =
     \<lparr>errResponse = Some \<lparr>responseStatus = 500, responseData = None\<rparr>,
      errCode = Some (CodeNumber 500), errErrors = None\<rparr>"

text \<open>A 500 whose \<^verbatim>\<open>code\<close> is the status as a string, as for a response without an
  error body.\<close>

definition serverError500Text :: ProviderError where
  "serverError500Text =
     \<lparr>errResponse = Some \<lparr>responseStatus = 500, responseData = None\<rparr>,
      errCode = Some (CodeText ''500''), errErrors = None\<rparr>"

definition tabExists400 :: ProviderError where
  "tabExists400 =
     \<lparr>errResponse = Some \<lparr>responseStatus = 400, responseData = None\<rparr>,
      errCode = Some (CodeNumber 400),
      errErrors = Some [\<lparr>detailMessage = Some ''A sheet with the name results already exists''\<rparr>]\<rparr>"

text \<open>Items with the properties the client reads, a stand-in for the date formatter
  that shows the interval it was given, and a stand-in for the runtime.\<close>

record ExampleItem =
  exampleIsField :: bool
  exampleIsDimension :: bool
  exampleType :: string
  exampleInterval :: "string option"
  exampleLabel :: string
  exampleTableLabel :: string

definition exampleCommon :: "(ExampleItem, string, string) Common" where
  "exampleCommon =
     \<lparr>isField = exampleIsField,
      isDimension = exampleIsDimension,
      itemType = exampleType,
      dimensionTypeDATE = ''date'',
      timeInterval = exampleInterval,
      formatDate = (\<lambda>v interval. ''date by '' @ (case interval of None \<Rightarrow> ''DAY'' | Some i \<Rightarrow> i)),
      getItemLabel = (\<lambda>item. exampleTableLabel item @ '' '' @ exampleLabel item),
      getItemLabelWithoutTableName = exampleLabel\<rparr>"

text \<open>The same stand-ins over what an item map can give: an inherited member is no
  field and no dimension, and has no label.\<close>

definition exampleSheetCommon :: "(ExampleItem ItemsMapValue, string, string) Common" where
  "exampleSheetCommon =
     \<lparr>isField = (\<lambda>v. case v of OwnItem item \<Rightarrow> exampleIsField item | InheritedMember m \<Rightarrow> False),
      isDimension =
        (\<lambda>v. case v of OwnItem item \<Rightarrow> exampleIsDimension item | InheritedMember m \<Rightarrow> False),
      itemType = (\<lambda>v. case v of OwnItem item \<Rightarrow> exampleType item | InheritedMember m \<Rightarrow> ''undefined''),
      dimensionTypeDATE = ''date'',
      timeInterval = (\<lambda>v. case v of OwnItem item \<Rightarrow> exampleInterval item | InheritedMember m \<Rightarrow> None),
      formatDate = (\<lambda>v interval. ''date by '' @ (case interval of None \<Rightarrow> ''DAY'' | Some i \<Rightarrow> i)),
      getItemLabel =
        (\<lambda>v. case v of
               OwnItem item \<Rightarrow> exampleTableLabel item @ '' '' @ exampleLabel item
             | InheritedMember m \<Rightarrow> ''undefined''),
      getItemLabelWithoutTableName =
        (\<lambda>v. case v of OwnItem item \<Rightarrow> exampleLabel item | InheritedMember m \<Rightarrow> ''undefined'')\<rparr>"

definition exampleRuntime :: JsRuntime where
  "exampleRuntime = \<lparr>toText = (\<lambda>v. ''[value]''), jsonStringify = (\<lambda>v. ''{json}'')\<rparr>"

definition orderDate :: ExampleItem where
  "orderDate =
     \<lparr>exampleIsField = True, exampleIsDimension = True, exampleType = ''date'',
      exampleInterval = Some ''WEEK'', exampleLabel = ''Order date'', exampleTableLabel = ''Orders''\<rparr>"

definition orderStatus :: ExampleItem where
  "orderStatus =
     \<lparr>exampleIsField = True, exampleIsDimension = True, exampleType = ''string'',
      exampleInterval = None, exampleLabel = ''Status'', exampleTableLabel = ''Orders''\<rparr>"

text \<open>A result row, and the caller's column order, labels and hidden fields.\<close>

definition exampleRow :: "(string \<times> JsValue) list" where
  "exampleRow =
     [(''status'', JsString ''shipped''), (''order_date'', JsString ''2024-03-04''),
      (''secret'', JsString ''x''), (''raw'', JsNumber 1)]"

definition exampleItemMap :: "string \<Rightarrow> ExampleItem option" where
  "exampleItemMap = Map.empty(''order_date'' \<mapsto> orderDate, ''status'' \<mapsto> orderStatus)"

definition exampleLabels :: "string \<Rightarrow> string option" where
  "exampleLabels = Map.empty(''status'' \<mapsto> ''State'')"

text \<open>Providers: one that answers every call with a 401, one that does so for clearing
  only, one for value updates only, one that answers tab creation with tab-already-exists,
  and one that answers every call with a 500.\<close>

definition unauthorizedSdk :: "(string, nat) GoogleSdk" where
  "unauthorizedSdk = rejectingSdk (\<lambda>call. Some unauthorized401)"

definition clearRejectingSdk :: "(string, nat) GoogleSdk" where
  "clearRejectingSdk =
     rejectingSdk
       (\<lambda>call. case call of ValuesClear fileId cleared \<Rightarrow> Some unauthorized401 | other \<Rightarrow> None)"

definition updateRejectingSdk :: "(string, nat) GoogleSdk" where
  "updateRejectingSdk =
     rejectingSdk (\<lambda>call. if isValuesUpdate call then Some unauthorized401 else None)"

definition tabExistsSdk :: "(string, nat) GoogleSdk" where
  "tabExistsSdk =
     rejectingSdk
       (\<lambda>call. case call of
                  BatchUpdateAddSheet fileId tabTitle \<Rightarrow> Some tabExists400
                | other \<Rightarrow> None)"

definition serverErrorSdk :: "(string, nat) GoogleSdk" where
  "serverErrorSdk = rejectingSdk (\<lambda>call. Some serverError500)"

section \<open>Properties of the query-results hooks\<close>

subsection \<open>The date-zoom tracking set and the cache key\<close>

lemma useChartAndResults_set_after:
  "chartsWithDateZoomApplied
     (fst (useChartAndResults clientRetry respond conv getQueryData chart dashboard dFilters dSorts
             invalidate gran autoRef ctx dc net)) =
   dateZoomUpdater
     (cachedHasADateDimension
        (getQueryData (chartAndResultsQueryKey chart dashboard dFilters invalidate dSorts autoRef)))
     gran chart (chartsWithDateZoomApplied dc)"
  by (simp add: useChartAndResults_def setChartsWithDateZoomApplied_def Let_def)

lemma chartAndResultsQueryOptions_queryKey:
  "queryKey
     (chartAndResultsQueryOptions respond conv getQueryData chart dashboard dFilters dSorts invalidate
        gran autoRef ctx) =
   (if cachedHasADateDimension
         (getQueryData (chartAndResultsQueryKey chart dashboard dFilters invalidate dSorts autoRef))
    then (case gran of
            Some g \<Rightarrow>
              chartAndResultsQueryKey chart dashboard dFilters invalidate dSorts autoRef @
              [KeyGranularity g]
          | None \<Rightarrow> chartAndResultsQueryKey chart dashboard dFilters invalidate dSorts autoRef)
    else chartAndResultsQueryKey chart dashboard dFilters invalidate dSorts autoRef)"
  by (simp add: chartAndResultsQueryOptions_def Let_def)

lemma chartAndResultsQueryKey_no_granularity:
  "KeyGranularity g \<notin> set (chartAndResultsQueryKey chart dashboard dFilters invalidate dSorts autoRef)"
  by (simp add: chartAndResultsQueryKey_def)

text \<open>
  C3, as the code has it. The updater of \<^verbatim>\<open>useChartAndResults\<close> leaves the date-zoom
  tracking set exactly as it was when the cached chart-and-results metadata reports no
  date dimension. The set is emptied, whatever it held and not only of the current chart,
  when the metadata reports a date dimension and no granularity is given (a set that is
  \<^verbatim>\<open>undefined\<close> stays so).
\<close>

theorem useChartAndResults_date_zoom_set:
  "(\<not> cachedHasADateDimension
        (getQueryData (chartAndResultsQueryKey chart dashboard dFilters invalidate dSorts autoRef)) \<longrightarrow>
      chartsWithDateZoomApplied
        (fst (useChartAndResults clientRetry respond conv getQueryData chart dashboard dFilters dSorts
                invalidate gran autoRef ctx dc net)) =
      chartsWithDateZoomApplied dc) \<and>
   (cachedHasADateDimension
        (getQueryData (chartAndResultsQueryKey chart dashboard dFilters invalidate dSorts autoRef)) \<longrightarrow>
      chartsWithDateZoomApplied
        (fst (useChartAndResults clientRetry respond conv getQueryData chart dashboard dFilters dSorts
                invalidate None autoRef ctx dc net)) =
      map_option (\<lambda>s. {}) (chartsWithDateZoomApplied dc))"
  by (simp add: useChartAndResults_set_after dateZoomUpdater_def split: option.split)

text \<open>On a cache without a date dimension the set \<open>{chart-b}\<close> survives a call for
  \<open>chart-a\<close>; on a cache with one, and no granularity, it is emptied.\<close>

theorem useChartAndResults_date_zoom_set_witness:
  "chartsWithDateZoomApplied
     (fst (useChartAndResults (RetryBool False) failingBackend id (cacheWithDateDimension False)
             (Some ''chart-a'') (Some ''dash'') () None None (Some DAY) None None
             \<lparr>chartsWithDateZoomApplied = Some {Some ''chart-b''}\<rparr> emptyNet)) =
   Some {Some ''chart-b''} \<and>
   chartsWithDateZoomApplied
     (fst (useChartAndResults (RetryBool False) failingBackend id (cacheWithDateDimension True)
             (Some ''chart-a'') (Some ''dash'') () None None None None None
             \<lparr>chartsWithDateZoomApplied = Some {Some ''chart-b''}\<rparr> emptyNet)) =
   Some {}"
  using useChartAndResults_date_zoom_set
          [of "cacheWithDateDimension False" "Some ''chart-a''" "Some ''dash''" "()" None None None
              "RetryBool False" failingBackend id "Some DAY" None
              "\<lparr>chartsWithDateZoomApplied = Some {Some ''chart-b''}\<rparr>" emptyNet]
        useChartAndResults_date_zoom_set
          [of "cacheWithDateDimension True" "Some ''chart-a''" "Some ''dash''" "()" None None None
              "RetryBool False" failingBackend id None None
              "\<lparr>chartsWithDateZoomApplied = Some {Some ''chart-b''}\<rparr>" emptyNet]
  by (simp add: cacheWithDateDimension_def cachedHasADateDimension_def)

text \<open>C3 as stated fails: the cached metadata reports no date dimension, and after the
  call the set is not empty.\<close>

theorem useChartAndResults_no_date_dimension_counterexample:
  "\<not> cachedHasADateDimension
        (cacheWithDateDimension False
           (chartAndResultsQueryKey (Some ''chart-a'') (Some ''dash'') () None None None)) \<and>
   chartsWithDateZoomApplied
     (fst (useChartAndResults (RetryBool False) failingBackend id (cacheWithDateDimension False)
             (Some ''chart-a'') (Some ''dash'') () None None (Some DAY) None None
             \<lparr>chartsWithDateZoomApplied = Some {Some ''chart-b''}\<rparr> emptyNet)) =
   Some {Some ''chart-b''}"
  by (simp add: useChartAndResults_set_after dateZoomUpdater_def cacheWithDateDimension_def
        cachedHasADateDimension_def)

text \<open>
  C4. When the cached metadata has a date dimension and a granularity \<open>g\<close> is given,
  the chart's identifier is in the tracking set after the call and the query key is the
  base key followed by \<open>g\<close>. Without a granularity the query key is the base key, which
  holds no granularity term. When the metadata has no date dimension the query key is the
  same for every granularity, given or not.
\<close>

theorem useChartAndResults_granularity_key:
  "(cachedHasADateDimension
        (getQueryData (chartAndResultsQueryKey chart dashboard dFilters invalidate dSorts autoRef)) \<longrightarrow>
      (\<exists>applied.
          chartsWithDateZoomApplied
            (fst (useChartAndResults clientRetry respond conv getQueryData chart dashboard dFilters
                    dSorts invalidate (Some g) autoRef ctx dc net)) = Some applied \<and>
          chart \<in> applied) \<and>
      queryKey
        (chartAndResultsQueryOptions respond conv getQueryData chart dashboard dFilters dSorts
           invalidate (Some g) autoRef ctx) =
      chartAndResultsQueryKey chart dashboard dFilters invalidate dSorts autoRef @ [KeyGranularity g]) \<and>
   queryKey
     (chartAndResultsQueryOptions respond conv getQueryData chart dashboard dFilters dSorts invalidate
        None autoRef ctx) =
   chartAndResultsQueryKey chart dashboard dFilters invalidate dSorts autoRef \<and>
   (\<forall>g'. KeyGranularity g' \<notin>
           set (queryKey
                  (chartAndResultsQueryOptions respond conv getQueryData chart dashboard dFilters
                     dSorts invalidate None autoRef ctx))) \<and>
   (\<not> cachedHasADateDimension
        (getQueryData (chartAndResultsQueryKey chart dashboard dFilters invalidate dSorts autoRef)) \<longrightarrow>
      queryKey
        (chartAndResultsQueryOptions respond conv getQueryData chart dashboard dFilters dSorts
           invalidate gran autoRef ctx) =
      queryKey
        (chartAndResultsQueryOptions respond conv getQueryData chart dashboard dFilters dSorts
           invalidate gran' autoRef ctx))"
  by (auto simp add: useChartAndResults_set_after chartAndResultsQueryOptions_queryKey
        dateZoomUpdater_def chartAndResultsQueryKey_no_granularity split: option.split)

text \<open>With a date dimension cached and the granularity \<open>WEEK\<close>, \<open>chart-a\<close> is tracked and
  the key ends in \<open>WEEK\<close>; without a granularity the key has its seven base parts; without
  a date dimension \<open>DAY\<close> and \<open>YEAR\<close> give one key.\<close>

theorem useChartAndResults_granularity_key_witness:
  "Some ''chart-a'' \<in>
     the (chartsWithDateZoomApplied
            (fst (useChartAndResults (RetryBool False) failingBackend id (cacheWithDateDimension True)
                    (Some ''chart-a'') (Some ''dash'') () None None (Some WEEK) None None
                    \<lparr>chartsWithDateZoomApplied = None\<rparr> emptyNet))) \<and>
   queryKey
     (chartAndResultsQueryOptions failingBackend id (cacheWithDateDimension True)
        (Some ''chart-a'') (Some ''dash'') () None None (Some WEEK) None None) =
   [KeyString ''savedChartResults'', KeyNullable (Some ''chart-a''), KeyNullable (Some ''dash''),
    KeyFilters (), KeyFlag None, KeyString '''', KeyFlag None, KeyGranularity WEEK] \<and>
   queryKey
     (chartAndResultsQueryOptions failingBackend id (cacheWithDateDimension True)
        (Some ''chart-a'') (Some ''dash'') () None None None None None) =
   [KeyString ''savedChartResults'', KeyNullable (Some ''chart-a''), KeyNullable (Some ''dash''),
    KeyFilters (), KeyFlag None, KeyString '''', KeyFlag None] \<and>
   queryKey
     (chartAndResultsQueryOptions failingBackend id (cacheWithDateDimension False)
        (Some ''chart-a'') (Some ''dash'') () None None (Some DAY) None None) =
   queryKey
     (chartAndResultsQueryOptions failingBackend id (cacheWithDateDimension False)
        (Some ''chart-a'') (Some ''dash'') () None None (Some YEAR) None None)"
  using useChartAndResults_granularity_key
          [of "cacheWithDateDimension True" "Some ''chart-a''" "Some ''dash''" "()" None None None
              "RetryBool False" failingBackend id WEEK None "\<lparr>chartsWithDateZoomApplied = None\<rparr>"
              emptyNet None None]
        useChartAndResults_granularity_key
          [of "cacheWithDateDimension False" "Some ''chart-a''" "Some ''dash''" "()" None None None
              "RetryBool False" failingBackend id WEEK None "\<lparr>chartsWithDateZoomApplied = None\<rparr>"
              emptyNet "Some DAY" "Some YEAR"]
  by (simp add: useChartAndResults_def chartAndResultsQueryOptions_def
        setChartsWithDateZoomApplied_def dateZoomUpdater_def cacheWithDateDimension_def
        cachedHasADateDimension_def chartAndResultsQueryKey_def sortKey_def)

subsection \<open>Paginated aggregation\<close>

lemma lightdashApi_requests:
  "lightdashApi respond rq net = (answer, net') \<Longrightarrow> requests net' = requests net @ [rq]"
  by (auto simp add: lightdashApi_def split: prod.splits)

lemma getAllPageRows_servesPages:
  "servesPages respond project firstQueryUuid currentPage net pages net' \<Longrightarrow>
   getAllPageRows respond project firstQueryUuid currentPage allRows net =
   Some (Inr (allRows @ concat (map pageRows pages)), net')"
proof (induction pages arbitrary: currentPage allRows net)
  case Nil
  then show ?case
    by (subst getAllPageRows.simps) simp
next
  case (Cons page pages)
  from Cons.prems obtain net1 where
    token: "truthyNumber (nextPage currentPage)" and
    served: "lightdashApi respond
               (paginatedPageRequest project firstQueryUuid (nextPage currentPage)) net =
             (Inr page, net1)" and
    rest: "servesPages respond project firstQueryUuid page net1 pages net'"
    by (auto split: prod.splits sum.splits)
  have "getAllPageRows respond project firstQueryUuid currentPage allRows net =
        getAllPageRows respond project firstQueryUuid page (allRows @ pageRows page) net1"
    using token served by (subst getAllPageRows.simps) simp
  also have "\<dots> = Some (Inr ((allRows @ pageRows page) @ concat (map pageRows pages)), net')"
    using rest by (rule Cons.IH)
  finally show ?case by simp
qed

lemma servesPages_requests:
  "servesPages respond project firstQueryUuid currentPage net pages net' \<Longrightarrow>
   requests net' =
   requests net @
   map (\<lambda>p. paginatedPageRequest project firstQueryUuid (nextPage p)) (butlast (currentPage # pages))"
proof (induction pages arbitrary: currentPage net)
  case Nil
  then show ?case by simp
next
  case (Cons page pages)
  from Cons.prems obtain net1 where
    served: "lightdashApi respond
               (paginatedPageRequest project firstQueryUuid (nextPage currentPage)) net =
             (Inr page, net1)" and
    rest: "servesPages respond project firstQueryUuid page net1 pages net'"
    by (auto split: prod.splits sum.splits)
  from Cons.IH [OF rest] lightdashApi_requests [OF served] show ?case by simp
qed

text \<open>
  C1. When the first request is answered with \<open>firstPage\<close> and the backend then serves
  the pages \<open>morePages\<close> along the next-page tokens, \<^verbatim>\<open>getQueryPaginatedResults\<close>
  returns: its rows are the rows of all the pages, concatenated in page order; the metric
  query, the fields and the query identifier are those of the first page; the cache hit is
  false. The requests were issued one after the other, each page request carrying the first
  page's query identifier and the token of the page before it.
\<close>

theorem getQueryPaginatedResults_concatenates_pages:
  assumes first: "lightdashApi respond (paginatedQueryRequest project data) net = (Inr firstPage, net1)"
    and more: "servesPages respond project (pageQueryUuid firstPage) firstPage net1 morePages net'"
  shows "getQueryPaginatedResults respond project data net =
         Some (Inr \<lparr>metricQuery = pageMetricQuery firstPage,
                    cacheMetadata = \<lparr>cacheHit = False\<rparr>,
                    rows = concat (map pageRows (firstPage # morePages)),
                    resultFields = pageFields firstPage,
                    queryUuid = Some (pageQueryUuid firstPage)\<rparr>,
               net') \<and>
         requests net' =
         requests net @
         paginatedQueryRequest project data #
         map (\<lambda>p. paginatedPageRequest project (pageQueryUuid firstPage) (nextPage p))
           (butlast (firstPage # morePages))"
  using first getAllPageRows_servesPages [OF more, of "pageRows firstPage"]
    servesPages_requests [OF more] lightdashApi_requests [OF first]
  by (simp add: getQueryPaginatedResults_def)

text \<open>The three pages of the example backend, whose metadata differ, give five rows and
  the first page's metadata, after three requests.\<close>

theorem getQueryPaginatedResults_concatenates_pages_witness:
  "getQueryPaginatedResults threePageBackend ''project-1'' exampleParams emptyNet =
   Some (Inr \<lparr>metricQuery = ''metric query of page 1'',
              cacheMetadata = \<lparr>cacheHit = False\<rparr>,
              rows = [10, 11, 20, 30, 31],
              resultFields = ''fields of page 1'',
              queryUuid = Some ''query-1''\<rparr>,
         \<lparr>backend = 3,
          requests = [paginatedQueryRequest ''project-1'' exampleParams,
                      paginatedPageRequest ''project-1'' ''query-1'' (Some 2),
                      paginatedPageRequest ''project-1'' ''query-1'' (Some 3)]\<rparr>)"
proof -
  have first:
    "lightdashApi threePageBackend (paginatedQueryRequest ''project-1'' exampleParams) emptyNet =
     (Inr (examplePage ''page 1'' [10, 11] (Some 2)),
      \<lparr>backend = 1, requests = [paginatedQueryRequest ''project-1'' exampleParams]\<rparr>)"
    by (simp add: lightdashApi_def threePageBackend_def paginatedQueryRequest_def emptyNet_def)
  have more:
    "servesPages threePageBackend ''project-1''
       (pageQueryUuid (examplePage ''page 1'' [10, 11] (Some 2)))
       (examplePage ''page 1'' [10, 11] (Some 2))
       \<lparr>backend = 1, requests = [paginatedQueryRequest ''project-1'' exampleParams]\<rparr>
       [examplePage ''page 2'' [20] (Some 3), examplePage ''page 3'' [30, 31] None]
       \<lparr>backend = 3,
        requests = [paginatedQueryRequest ''project-1'' exampleParams,
                    paginatedPageRequest ''project-1'' ''query-1'' (Some 2),
                    paginatedPageRequest ''project-1'' ''query-1'' (Some 3)]\<rparr>"
    by (simp add: lightdashApi_def threePageBackend_def paginatedPageRequest_def examplePage_def)
  from getQueryPaginatedResults_concatenates_pages [OF first more] show ?thesis
    by (simp add: examplePage_def)
qed

subsection \<open>The query dispatcher\<close>

text \<open>The example backend's three pages, aggregated.\<close>

lemma threePageBackend_aggregated:
  "getQueryPaginatedResults threePageBackend ''project-1'' exampleParams emptyNet =
   Some (Inr \<lparr>metricQuery = ''metric query of page 1'',
              cacheMetadata = \<lparr>cacheHit = False\<rparr>,
              rows = [10, 11, 20, 30, 31],
              resultFields = ''fields of page 1'',
              queryUuid = Some ''query-1''\<rparr>,
         \<lparr>backend = 3,
          requests = [paginatedQueryRequest ''project-1'' exampleParams,
                      paginatedPageRequest ''project-1'' ''query-1'' (Some 2),
                      paginatedPageRequest ''project-1'' ''query-1'' (Some 3)]\<rparr>)"
proof -
  have "servesPages threePageBackend ''project-1'' ''query-1''
          (examplePage ''page 1'' [10, 11] (Some 2))
          \<lparr>backend = 1, requests = [paginatedQueryRequest ''project-1'' exampleParams]\<rparr>
          [examplePage ''page 2'' [20] (Some 3), examplePage ''page 3'' [30, 31] None]
          \<lparr>backend = 3,
           requests = [paginatedQueryRequest ''project-1'' exampleParams,
                       paginatedPageRequest ''project-1'' ''query-1'' (Some 2),
                       paginatedPageRequest ''project-1'' ''query-1'' (Some 3)]\<rparr>"
    by (simp add: lightdashApi_def threePageBackend_def paginatedPageRequest_def examplePage_def)
  from getAllPageRows_servesPages [OF this, of "[10, 11]"] show ?thesis
    by (simp add: getQueryPaginatedResults_def lightdashApi_def threePageBackend_def
          paginatedQueryRequest_def emptyNet_def examplePage_def)
qed

text \<open>
  C2. The \<^verbatim>\<open>queryFn\<close> of \<^verbatim>\<open>useQueryResults\<close> takes exactly one path, the first of
  these that applies (a reference counts as given when it is a non-empty string): with a
  chart and a chart version, the versioned results; with a chart, the chart's results;
  with a query, the paginated execution when the feature flag is on and the single-shot
  execution when it is off. With neither a chart nor a query, and so whenever all three
  identifying fields are missing, the promise is rejected with the parameter error and
  the network is returned as it was: no request is issued.
\<close>

theorem queryResultsFn_dispatch:
  "(chartUuid props = Some chart \<and> chart \<noteq> [] \<and> chartVersionUuid props = Some chartVersion \<and>
    chartVersion \<noteq> [] \<longrightarrow>
      queryResultsFn respond respondPage conv paginationEnabled (Some props) net =
      apiPromise (getChartVersionResults respond chart chartVersion net)) \<and>
   (chartUuid props = Some chart \<and> chart \<noteq> [] \<and> \<not> truthyString (chartVersionUuid props) \<longrightarrow>
      queryResultsFn respond respondPage conv paginationEnabled (Some props) net =
      apiPromise (getChartResults respond (Some chart) (queryContext props) net)) \<and>
   (\<not> truthyString (chartUuid props) \<and> query props = Some q \<longrightarrow>
      queryResultsFn respond respondPage conv True (Some props) net =
      Option.bind
        (getQueryPaginatedResults respondPage (projectUuid props) (queryWithOverrides conv props q)
           net)
        apiPromise \<and>
      queryResultsFn respond respondPage conv False (Some props) net =
      apiPromise (getQueryResults respond conv props net)) \<and>
   (\<not> truthyString (chartUuid props) \<and> query props = None \<longrightarrow>
      queryResultsFn respond respondPage conv paginationEnabled (Some props) net =
      Some (Inl (ParameterError ''Missing QueryResultsProps''), net)) \<and>
   queryResultsFn respond respondPage conv paginationEnabled None net =
   Some (Inl (ParameterError ''Missing QueryResultsProps''), net)"
  by (auto simp add: queryResultsFn_def split: option.split)

text \<open>One request configuration per path; each result names the URLs requested. The
  configuration with nothing filled in is rejected on an untouched network.\<close>

theorem queryResultsFn_dispatch_witness:
  "map_option (\<lambda>(settled, net). (settled, map url (requests net)))
     (queryResultsFn echoBackend threePageBackend id True
        (Some (emptyProps\<lparr>chartUuid := Some ''chart-1'', chartVersionUuid := Some ''version-7'',
                            query := Some exampleQuery\<rparr>))
        emptyNet) =
   Some (Inr \<lparr>metricQuery = ''/saved/chart-1/version/version-7/results'',
              cacheMetadata = \<lparr>cacheHit = True\<rparr>, rows = [], resultFields = ''fields'',
              queryUuid = None\<rparr>,
         [''/saved/chart-1/version/version-7/results'']) \<and>
   map_option (\<lambda>(settled, net). (settled, map url (requests net)))
     (queryResultsFn echoBackend threePageBackend id True
        (Some (emptyProps\<lparr>chartUuid := Some ''chart-1'', query := Some exampleQuery\<rparr>))
        emptyNet) =
   Some (Inr \<lparr>metricQuery = ''/saved/chart-1/results'',
              cacheMetadata = \<lparr>cacheHit = True\<rparr>, rows = [], resultFields = ''fields'',
              queryUuid = None\<rparr>,
         [''/saved/chart-1/results'']) \<and>
   map_option (\<lambda>(settled, net). (settled, map url (requests net)))
     (queryResultsFn echoBackend threePageBackend id True
        (Some (emptyProps\<lparr>query := Some exampleQuery\<rparr>)) emptyNet) =
   Some (Inr \<lparr>metricQuery = ''metric query of page 1'',
              cacheMetadata = \<lparr>cacheHit = False\<rparr>, rows = [10, 11, 20, 30, 31],
              resultFields = ''fields of page 1'', queryUuid = Some ''query-1''\<rparr>,
         [''/projects/project-1/query'', ''/projects/project-1/query'',
          ''/projects/project-1/query'']) \<and>
   map_option (\<lambda>(settled, net). (settled, map url (requests net)))
     (queryResultsFn echoBackend threePageBackend id False
        (Some (emptyProps\<lparr>query := Some exampleQuery\<rparr>)) emptyNet) =
   Some (Inr \<lparr>metricQuery = ''/projects/project-1/explores/orders/runQuery'',
              cacheMetadata = \<lparr>cacheHit = True\<rparr>, rows = [], resultFields = ''fields'',
              queryUuid = None\<rparr>,
         [''/projects/project-1/explores/orders/runQuery'']) \<and>
   queryResultsFn echoBackend threePageBackend id True (Some emptyProps) emptyNet =
   Some (Inl (ParameterError ''Missing QueryResultsProps''), emptyNet) \<and>
   queryResultsFn echoBackend threePageBackend id True None emptyNet =
   Some (Inl (ParameterError ''Missing QueryResultsProps''), emptyNet)"
proof -
  have paged:
    "getQueryPaginatedResults threePageBackend ''project-1''
       (queryWithOverrides id (emptyProps\<lparr>query := Some exampleQuery\<rparr>) exampleQuery) emptyNet =
     Some (Inr \<lparr>metricQuery = ''metric query of page 1'',
              cacheMetadata = \<lparr>cacheHit = False\<rparr>,
              rows = [10, 11, 20, 30, 31],
              resultFields = ''fields of page 1'',
              queryUuid = Some ''query-1''\<rparr>,
         \<lparr>backend = 3,
          requests = [paginatedQueryRequest ''project-1'' exampleParams,
                      paginatedPageRequest ''project-1'' ''query-1'' (Some 2),
                      paginatedPageRequest ''project-1'' ''query-1'' (Some 3)]\<rparr>)"
    using threePageBackend_aggregated
    by (simp add: queryWithOverrides_def exampleParams_def emptyProps_def exampleQuery_def)
  show ?thesis
    using queryResultsFn_dispatch
            [of "emptyProps\<lparr>chartUuid := Some ''chart-1'', chartVersionUuid := Some ''version-7'',
                              query := Some exampleQuery\<rparr>"
                "''chart-1''" "''version-7''" echoBackend threePageBackend id True emptyNet
                exampleQuery]
          queryResultsFn_dispatch
            [of "emptyProps\<lparr>chartUuid := Some ''chart-1'', query := Some exampleQuery\<rparr>"
                "''chart-1''" "''version-7''" echoBackend threePageBackend id True emptyNet
                exampleQuery]
          queryResultsFn_dispatch
            [of "emptyProps\<lparr>query := Some exampleQuery\<rparr>"
                "''chart-1''" "''version-7''" echoBackend threePageBackend id True emptyNet
                exampleQuery]
          queryResultsFn_dispatch
            [of emptyProps "''chart-1''" "''version-7''" echoBackend threePageBackend id True
                emptyNet exampleQuery]
          paged
    by (simp add: emptyProps_def apiPromise_def getChartVersionResults_def getChartResults_def
          getQueryResults_def lightdashApi_def echoBackend_def emptyNet_def
          paginatedQueryRequest_def paginatedPageRequest_def)
qed

subsection \<open>Failed fetches\<close>

lemma fetchWithRetry_failure_final:
  "fn w = Some (Inl e, w') \<Longrightarrow> \<not> shouldRetry r failureCount \<Longrightarrow>
   fetchWithRetry r failureCount fn w = Some (Inl e, w')"
  by (subst fetchWithRetry.simps) simp

lemma useQuery_failure_without_retry:
  "enabled options \<noteq> Some False \<Longrightarrow> queryFn options w = Some (Inl e, w') \<Longrightarrow>
   \<not> shouldRetry (case retry options of None \<Rightarrow> clientRetry | Some r \<Rightarrow> r) 0 \<Longrightarrow>
   useQuery clientRetry options w = Some (\<lparr>resultData = None, resultError = Some e\<rparr>, w')"
  by (simp add: useQuery_def fetchWithRetry_failure_final)

text \<open>
  C7. A fetch that fails is not issued again, and its error reaches the caller.
  \<^verbatim>\<open>useUnderlyingDataResults\<close> and \<^verbatim>\<open>useChartAndResults\<close> pass \<^verbatim>\<open>retry: false\<close>:
  whatever the client's default, the query settles with the error of the one request that
  was issued. \<^verbatim>\<open>useQueryResults\<close> passes no \<^verbatim>\<open>retry\<close> option: under the client's
  default, no retry, its query settles with the error after the one run of its
  \<^verbatim>\<open>queryFn\<close>, and the error is handed to \<^verbatim>\<open>setErrorResponse\<close>.
\<close>

theorem failed_fetch_is_not_retried:
  "(getUnderlyingDataResults respond conv project table q net = (Inl e, net') \<longrightarrow>
      useUnderlyingDataResults clientRetry respond conv project table q net =
      Some (\<lparr>resultData = None, resultError = Some e\<rparr>, net') \<and>
      length (requests net') = Suc (length (requests net))) \<and>
   (truthyString chart \<and> truthyString dashboard \<and>
    getChartAndResults respondChart chart dashboard (convDashboard dFilters) invalidate dSorts gran
      autoRef ctx net = (Inl e, net') \<longrightarrow>
      snd (useChartAndResults clientRetry respondChart convDashboard getQueryData chart dashboard
             dFilters dSorts invalidate gran autoRef ctx dc net) =
      Some (\<lparr>resultData = None, resultError = Some e\<rparr>, net') \<and>
      length (requests net') = Suc (length (requests net))) \<and>
   (queryResultsFn respondResults respondPage conv paginationEnabled (Some props) net =
    Some (Inl queryError, net') \<longrightarrow>
      useQueryResults queryClientRetry respondResults respondPage conv paginationEnabled (Some props)
        net reported =
      Some (\<lparr>resultData = None, resultError = Some queryError\<rparr>, net', reported @ [queryError]))"
proof (intro conjI impI)
  assume failed: "getUnderlyingDataResults respond conv project table q net = (Inl e, net')"
  then show "useUnderlyingDataResults clientRetry respond conv project table q net =
             Some (\<lparr>resultData = None, resultError = Some e\<rparr>, net')"
    by (simp add: useUnderlyingDataResults_def underlyingDataQueryOptions_def
          useQuery_failure_without_retry)
  from failed show "length (requests net') = Suc (length (requests net))"
    by (auto simp add: getUnderlyingDataResults_def Let_def dest: lightdashApi_requests)
next
  assume "truthyString chart \<and> truthyString dashboard \<and>
          getChartAndResults respondChart chart dashboard (convDashboard dFilters) invalidate dSorts
            gran autoRef ctx net = (Inl e, net')"
  then have on: "truthyString chart" "truthyString dashboard"
    and failed: "getChartAndResults respondChart chart dashboard (convDashboard dFilters) invalidate
                   dSorts gran autoRef ctx net = (Inl e, net')"
    by simp_all
  from on failed
  show "snd (useChartAndResults clientRetry respondChart convDashboard getQueryData chart dashboard
               dFilters dSorts invalidate gran autoRef ctx dc net) =
        Some (\<lparr>resultData = None, resultError = Some e\<rparr>, net')"
    by (simp add: useChartAndResults_def chartAndResultsQueryOptions_def Let_def
          useQuery_failure_without_retry)
  from failed show "length (requests net') = Suc (length (requests net))"
    by (auto simp add: getChartAndResults_def dest: lightdashApi_requests)
next
  assume "queryResultsFn respondResults respondPage conv paginationEnabled (Some props) net =
          Some (Inl queryError, net')"
  then show "useQueryResults queryClientRetry respondResults respondPage conv paginationEnabled
               (Some props) net reported =
             Some (\<lparr>resultData = None, resultError = Some queryError\<rparr>, net',
                   reported @ [queryError])"
    by (simp add: useQueryResults_def queryResultsOptions_def queryClientRetry_def
          useQuery_failure_without_retry)
qed

text \<open>Against a backend that fails every request and counts them: each hook ends with
  the error and a backend that has seen one request, the first two even under a client
  default of three retries.\<close>

theorem failed_fetch_is_not_retried_witness:
  "map_option (\<lambda>(result, net). (resultError result, backend net, length (requests net)))
     (useUnderlyingDataResults (RetryCount 3) failingResultsBackend id (Some ''project-1'') ''orders''
        exampleQuery emptyNet) =
   Some (Some exampleApiError, 1, 1) \<and>
   map_option (\<lambda>(result, net). (resultError result, backend net, length (requests net)))
     (snd (useChartAndResults (RetryCount 3) failingBackend id (cacheWithDateDimension False)
             (Some ''chart-a'') (Some ''dash'') () None None None None None
             \<lparr>chartsWithDateZoomApplied = None\<rparr> emptyNet)) =
   Some (Some exampleApiError, 1, 1) \<and>
   map_option (\<lambda>(result, net, reported). (resultError result, backend net, reported))
     (useQueryResults queryClientRetry failingResultsBackend threePageBackend id False
        (Some (emptyProps\<lparr>query := Some exampleQuery\<rparr>)) emptyNet []) =
   Some (Some (ApiFailure exampleApiError), 1, [ApiFailure exampleApiError])"
proof -
  have underlying:
    "getUnderlyingDataResults failingResultsBackend id (Some ''project-1'') ''orders'' exampleQuery emptyNet =
     (Inl exampleApiError,
      snd (getUnderlyingDataResults failingResultsBackend id (Some ''project-1'') ''orders'' exampleQuery
             emptyNet))"
    by (simp add: getUnderlyingDataResults_def lightdashApi_def failingBackend_def failingResultsBackend_def)
  have chart:
    "truthyString (Some ''chart-a'') \<and> truthyString (Some ''dash'') \<and>
     getChartAndResults failingBackend (Some ''chart-a'') (Some ''dash'') (id ()) None None None
       None None emptyNet =
     (Inl exampleApiError,
      snd (getChartAndResults failingBackend (Some ''chart-a'') (Some ''dash'') (id ()) None None
             None None None emptyNet))"
    by (simp add: getChartAndResults_def lightdashApi_def failingBackend_def failingResultsBackend_def)
  have adhoc:
    "queryResultsFn failingResultsBackend threePageBackend id False
       (Some (emptyProps\<lparr>query := Some exampleQuery\<rparr>)) emptyNet =
     Some (Inl (ApiFailure exampleApiError),
           snd (getQueryResults failingResultsBackend id (emptyProps\<lparr>query := Some exampleQuery\<rparr>)
                  emptyNet))"
    by (simp add: queryResultsFn_def emptyProps_def apiPromise_def getQueryResults_def
          lightdashApi_def failingBackend_def failingResultsBackend_def)
  note first =
    failed_fetch_is_not_retried
      [where respond = failingResultsBackend and conv = id and project = "Some ''project-1''"
         and table = "''orders''" and q = exampleQuery and net = emptyNet
         and e = exampleApiError and clientRetry = "RetryCount 3"
         and net' = "snd (getUnderlyingDataResults failingResultsBackend id (Some ''project-1'') ''orders''
                           exampleQuery emptyNet)",
       THEN conjunct1, rule_format, OF underlying, THEN conjunct1]
  note second =
    failed_fetch_is_not_retried
      [where respondChart = failingBackend and convDashboard = id
         and getQueryData = "cacheWithDateDimension False" and chart = "Some ''chart-a''"
         and dashboard = "Some ''dash''" and dFilters = "()" and invalidate = None
         and dSorts = None and gran = None and autoRef = None and ctx = None
         and dc = "\<lparr>chartsWithDateZoomApplied = None\<rparr>" and net = emptyNet
         and e = exampleApiError and clientRetry = "RetryCount 3"
         and net' = "snd (getChartAndResults failingBackend (Some ''chart-a'') (Some ''dash'') (id ())
                           None None None None None emptyNet)",
       THEN conjunct2, THEN conjunct1, rule_format, OF chart, THEN conjunct1]
  note third =
    failed_fetch_is_not_retried
      [where respondResults = failingResultsBackend and respondPage = threePageBackend and conv = id
         and paginationEnabled = False and props = "emptyProps\<lparr>query := Some exampleQuery\<rparr>"
         and net = emptyNet and queryError = "ApiFailure exampleApiError" and reported = "[]"
         and net' = "snd (getQueryResults failingResultsBackend id
                           (emptyProps\<lparr>query := Some exampleQuery\<rparr>) emptyNet)",
       THEN conjunct2, THEN conjunct2, rule_format, OF adhoc]
  show ?thesis
    unfolding first second third
    by (simp add: getUnderlyingDataResults_def getChartAndResults_def getQueryResults_def
          lightdashApi_def failingBackend_def failingResultsBackend_def emptyNet_def)
qed

text \<open>The \<^verbatim>\<open>retry\<close> option is what keeps the first two hooks from retrying;
  \<^verbatim>\<open>useQueryResults\<close> follows the client: were the client's default one retry, its
  failed fetch would be issued twice.\<close>

lemma useQueryResults_follows_client_default:
  "map_option (\<lambda>(result, net, reported). (resultError result, backend net, reported))
     (useQueryResults (RetryCount 1) failingResultsBackend threePageBackend id False
        (Some (emptyProps\<lparr>query := Some exampleQuery\<rparr>)) emptyNet []) =
   Some (Some (ApiFailure exampleApiError), 2, [ApiFailure exampleApiError])"
proof -
  let ?fn = "queryResultsFn failingResultsBackend threePageBackend id False
               (Some (emptyProps\<lparr>query := Some exampleQuery\<rparr>))"
  have step: "?fn net = Some (Inl (ApiFailure exampleApiError),
                \<lparr>backend = Suc (backend net),
                 requests = requests net @
                   [\<lparr>url = ''/projects/project-1/explores/orders/runQuery'', version = None,
                     httpMethod = POST,
                     body = RunQueryBody (Some (exampleQuery\<lparr>timezone := Undefined\<rparr>)) None
                              Undefined None\<rparr>]\<rparr>)" for net
    by (simp add: queryResultsFn_def emptyProps_def apiPromise_def getQueryResults_def
          lightdashApi_def failingBackend_def failingResultsBackend_def exampleQuery_def)
  have "fetchWithRetry (RetryCount 1) 0 ?fn emptyNet =
        fetchWithRetry (RetryCount 1) (Suc 0) ?fn
          \<lparr>backend = 1,
           requests =
             [\<lparr>url = ''/projects/project-1/explores/orders/runQuery'', version = None,
               httpMethod = POST,
               body = RunQueryBody (Some (exampleQuery\<lparr>timezone := Undefined\<rparr>)) None
                        Undefined None\<rparr>]\<rparr>"
    by (subst fetchWithRetry.simps) (simp add: step emptyNet_def)
  also have "\<dots> = Some (Inl (ApiFailure exampleApiError),
                \<lparr>backend = 2,
                 requests =
                   [\<lparr>url = ''/projects/project-1/explores/orders/runQuery'', version = None,
                     httpMethod = POST,
                     body = RunQueryBody (Some (exampleQuery\<lparr>timezone := Undefined\<rparr>)) None
                              Undefined None\<rparr>,
                    \<lparr>url = ''/projects/project-1/explores/orders/runQuery'', version = None,
                     httpMethod = POST,
                     body = RunQueryBody (Some (exampleQuery\<lparr>timezone := Undefined\<rparr>)) None
                              Undefined None\<rparr>]\<rparr>)"
    by (subst fetchWithRetry.simps) (simp add: step)
  finally show ?thesis
    by (simp add: useQueryResults_def useQuery_def queryResultsOptions_def)
qed

section \<open>Properties of the spreadsheet export client\<close>

subsection \<open>Cell formatting\<close>

text \<open>
  C5, as the code has it: the clauses hold in the order of the code's tests. An array is
  joined with commas whatever its field, so \<^verbatim>\<open>["a","b"]\<close> gives \<^verbatim>\<open>"a,b"\<close>. A value that
  is not an array, a regular expression or a set, and whose item is a field of type date,
  goes through the date formatter, with the field's time interval when the field is a
  dimension and with none otherwise. When the item is not a date field, a wrapper object
  gives the primitive it wraps and a plain object gives its JSON string.
\<close>

theorem formatCell_by_precedence:
  "formatCell c rt (JsArray xs) item = JsString (joinValues rt '','' xs) \<and>
   formatCell c rt (JsArray [JsString a, JsString b]) item = JsString (a @ '','' @ b) \<and>
   (\<not> isArray v \<and> \<not> instanceofRegExp v \<and> \<not> instanceofSet v \<and> isField c i \<and>
    itemType c i = dimensionTypeDATE c \<longrightarrow>
      formatCell c rt v (Some i) =
      JsString (formatDate c v (if isDimension c i then timeInterval c i else None))) \<and>
   (\<not> isDateField c item \<longrightarrow>
      formatCell c rt (JsBoxedNumber n) item = JsNumber n \<and>
      formatCell c rt (JsBoxedBoolean flag) item = JsBoolean flag \<and>
      formatCell c rt (JsBoxedString s) item = JsString s \<and>
      formatCell c rt (JsObject properties) item = JsString (jsonStringify rt (JsObject properties)))"
  by (simp add: formatCell_def joinValues_def isDateField_def dateTimeInterval_def)

text \<open>An array, a date string of the weekly date dimension, and a boxed number and a
  plain object of a string dimension.\<close>

theorem formatCell_by_precedence_witness:
  "formatCell exampleCommon exampleRuntime (JsArray [JsString ''a'', JsString ''b'']) None =
   JsString ''a,b'' \<and>
   formatCell exampleCommon exampleRuntime (JsString ''2024-03-04'') (Some orderDate) =
   JsString ''date by WEEK'' \<and>
   formatCell exampleCommon exampleRuntime (JsBoxedNumber 5) (Some orderStatus) = JsNumber 5 \<and>
   formatCell exampleCommon exampleRuntime (JsObject [(''value'', JsNumber 5)]) (Some orderStatus) =
   JsString ''{json}''"
proof -
  note clauses = formatCell_by_precedence [where c = exampleCommon and rt = exampleRuntime]
  have date:
    "\<not> isArray (JsString ''2024-03-04'') \<and> \<not> instanceofRegExp (JsString ''2024-03-04'') \<and>
     \<not> instanceofSet (JsString ''2024-03-04'') \<and> isField exampleCommon orderDate \<and>
     itemType exampleCommon orderDate = dimensionTypeDATE exampleCommon"
    by (simp add: exampleCommon_def orderDate_def)
  have other: "\<not> isDateField exampleCommon (Some orderStatus)"
    by (simp add: isDateField_def exampleCommon_def orderStatus_def)
  have joined:
    "formatCell exampleCommon exampleRuntime (JsArray [JsString ''a'', JsString ''b'']) None =
     JsString (''a'' @ '','' @ ''b'')"
    by (rule clauses [THEN conjunct2, THEN conjunct1])
  have formatted:
    "formatCell exampleCommon exampleRuntime (JsString ''2024-03-04'') (Some orderDate) =
     JsString (formatDate exampleCommon (JsString ''2024-03-04'')
                 (if isDimension exampleCommon orderDate then timeInterval exampleCommon orderDate
                  else None))"
    by (rule clauses [THEN conjunct2, THEN conjunct2, THEN conjunct1, rule_format, OF date])
  have unwrapped:
    "formatCell exampleCommon exampleRuntime (JsBoxedNumber 5) (Some orderStatus) = JsNumber 5"
    by (rule clauses [THEN conjunct2, THEN conjunct2, THEN conjunct2, rule_format, OF other,
          THEN conjunct1])
  have serialised:
    "formatCell exampleCommon exampleRuntime (JsObject [(''value'', JsNumber 5)]) (Some orderStatus) =
     JsString (jsonStringify exampleRuntime (JsObject [(''value'', JsNumber 5)]))"
    by (rule clauses [THEN conjunct2, THEN conjunct2, THEN conjunct2, rule_format, OF other,
          THEN conjunct2, THEN conjunct2, THEN conjunct2])
  show ?thesis
    unfolding joined formatted unwrapped serialised
    by (simp add: exampleCommon_def exampleRuntime_def orderDate_def)
qed

text \<open>C5 as stated fails where two clauses meet. A boxed number of a date field goes
  through the date formatter and is not unwrapped; an array of a date field is joined and
  does not go through the date formatter.\<close>

theorem formatCell_precedence_counterexample:
  "formatCell exampleCommon exampleRuntime (JsBoxedNumber 5) (Some orderDate) \<noteq> JsNumber 5 \<and>
   formatCell exampleCommon exampleRuntime (JsArray [JsString ''a'', JsString ''b''])
     (Some orderDate) \<noteq>
   JsString (formatDate exampleCommon (JsArray [JsString ''a'', JsString ''b''])
               (timeInterval exampleCommon orderDate))"
  by (simp add: formatCell_def joinValues_def isDateField_def dateTimeInterval_def
        exampleCommon_def orderDate_def)

subsection \<open>Nothing to write\<close>

lemma logLine_simps:
  "provider (logLine entry w) = provider w"
  "calls (logLine entry w) = calls w"
  "logs (logLine entry w) = logs w @ [entry]"
  by (simp_all add: logLine_def)

text \<open>
  C10. With the client enabled, \<^verbatim>\<open>appendToSheet\<close> on no rows and \<^verbatim>\<open>appendCsvToSheet\<close>
  on an empty grid return successfully, and the world afterwards differs from the world
  before by one line in the log only: the provider's state is untouched and no call was
  made to it, so no tab was created or cleared and no values were written.
\<close>

theorem empty_export_makes_no_call:
  "isEnabled client \<longrightarrow>
     fst (appendToSheet sdk c rt client refreshToken fileId [] itemMap showTableNames tabName
            columnOrder customLabels hiddenFields w) = Inr () \<and>
     provider (snd (appendToSheet sdk c rt client refreshToken fileId [] itemMap showTableNames
                      tabName columnOrder customLabels hiddenFields w)) = provider w \<and>
     calls (snd (appendToSheet sdk c rt client refreshToken fileId [] itemMap showTableNames
                   tabName columnOrder customLabels hiddenFields w)) = calls w \<and>
     logs (snd (appendToSheet sdk c rt client refreshToken fileId [] itemMap showTableNames
                  tabName columnOrder customLabels hiddenFields w)) =
     logs w @ [LogInfo ''No data to write to the sheet''] \<and>
     fst (appendCsvToSheet sdk client refreshToken fileId [] tabName w) = Inr () \<and>
     provider (snd (appendCsvToSheet sdk client refreshToken fileId [] tabName w)) = provider w \<and>
     calls (snd (appendCsvToSheet sdk client refreshToken fileId [] tabName w)) = calls w \<and>
     logs (snd (appendCsvToSheet sdk client refreshToken fileId [] tabName w)) =
     logs w @ [LogInfo ''No data to write to the sheet'']"
  by (simp add: appendToSheet_def appendCsvToSheet_def logLine_simps)

text \<open>Against a provider that would answer every call with a 401, the empty exports
  succeed and the provider has counted no call.\<close>

theorem empty_export_makes_no_call_witness:
  "fst (appendToSheet unauthorizedSdk exampleSheetCommon exampleRuntime exampleClient ''token''
          ''file-1'' [] Map.empty True (Some ''results'') [] Map.empty [] emptyWorld) = Inr () \<and>
   provider (snd (appendToSheet unauthorizedSdk exampleSheetCommon exampleRuntime exampleClient ''token''
                    ''file-1'' [] Map.empty True (Some ''results'') [] Map.empty [] emptyWorld)) =
   0 \<and>
   calls (snd (appendToSheet unauthorizedSdk exampleSheetCommon exampleRuntime exampleClient ''token''
                 ''file-1'' [] Map.empty True (Some ''results'') [] Map.empty [] emptyWorld)) =
   [] \<and>
   fst (appendCsvToSheet unauthorizedSdk exampleClient ''token'' ''file-1'' [] (Some ''results'')
          emptyWorld) = Inr () \<and>
   provider (snd (appendCsvToSheet unauthorizedSdk exampleClient ''token'' ''file-1'' []
                    (Some ''results'') emptyWorld)) = 0 \<and>
   calls (snd (appendCsvToSheet unauthorizedSdk exampleClient ''token'' ''file-1'' []
                 (Some ''results'') emptyWorld)) = []"
proof -
  have on: "isEnabled exampleClient"
    by (simp add: exampleClient_def newGoogleDriveClient_def)
  from empty_export_makes_no_call
         [where client = exampleClient and sdk = unauthorizedSdk and c = exampleSheetCommon
            and rt = exampleRuntime and refreshToken = "''token''" and fileId = "''file-1''"
            and itemMap = Map.empty and showTableNames = True and tabName = "Some ''results''"
            and columnOrder = "[]" and customLabels = Map.empty and hiddenFields = "[]"
            and w = emptyWorld, rule_format, OF on]
  show ?thesis
    by (simp add: emptyWorld_def)
qed

subsection \<open>Header labels and hidden fields\<close>

lemma csvHeader_nth:
  "k < length fieldIds \<Longrightarrow>
   csvHeader c showTableNames customLabels itemMap fieldIds ! k =
   (if truthy (customLabel customLabels (fieldIds ! k))
    then customLabel customLabels (fieldIds ! k)
    else (case itemOf itemMap (fieldIds ! k) of
            None \<Rightarrow> JsString (fieldIds ! k)
          | Some item \<Rightarrow>
              if truthyItem item then
                JsString (if showTableNames then getItemLabel c item
                          else getItemLabelWithoutTableName c item)
              else JsString (fieldIds ! k)))"
  by (simp add: csvHeader_def)

lemma customLabel_own:
  "customLabels fid = Some label \<Longrightarrow> customLabel customLabels fid = JsString label"
  by (simp add: customLabel_def)

lemma customLabel_absent:
  "customLabels fid = None \<Longrightarrow> \<not> isInherited fid \<Longrightarrow>
   customLabel customLabels fid = JsUndefined"
  by (simp add: customLabel_def isInherited_def)

lemma itemOf_own:
  "itemMap fid = Some item \<Longrightarrow> itemOf itemMap fid = Some (OwnItem item)"
  by (simp add: itemOf_def)

lemma itemOf_absent:
  "itemMap fid = None \<Longrightarrow> \<not> isInherited fid \<Longrightarrow> itemOf itemMap fid = None"
  by (simp add: itemOf_def isInherited_def)

lemma objectKeys_set:
  "set (objectKeys object) = fst ` set object"
  by (auto simp add: objectKeys_def Let_def)

text \<open>Keys that are array indices come first, in numeric order; \<open>01\<close> is no array index.
  A key listed in \<^verbatim>\<open>columnOrder\<close> comes after the keys that are not.\<close>

lemma objectKeys_array_indices_first:
  "objectKeys [(''b'', JsNull), (''10'', JsNull), (''2'', JsNull), (''01'', JsNull)] =
   [''2'', ''10'', ''b'', ''01'']"
  by (simp add: objectKeys_def isArrayIndex_def isDigit_def decimalValue_def)

text \<open>
  C9, as the code has it. \<^verbatim>\<open>appendToSheet\<close> on rows hands \<^verbatim>\<open>appendCsvToSheet\<close> the
  header row followed by the formatted rows, over the sorted field identifiers: the keys
  of the first row that are not hidden. The header has one cell per column: the custom
  label of the field when \<^verbatim>\<open>customLabels\<close> has one of its own and it is not the empty
  string; otherwise, when there is no truthy \<^verbatim>\<open>customLabels[id]\<close> (the own label is the
  empty string, or there is none and the identifier is not the name of an inherited
  member), the label of the field's item, with or without the table name, when the item
  map has the field, and the field identifier itself when the item map has no such
  field and the identifier is not the name of an inherited member. Nothing is said here
  of an identifier that names an inherited member and has no property of its own.
\<close>

theorem appendToSheet_header_labels:
  "(isEnabled client \<longrightarrow>
      appendToSheet sdk c rt client refreshToken fileId (firstRow # moreRows) itemMap showTableNames
        tabName columnOrder customLabels hiddenFields w =
      appendCsvToSheet sdk client refreshToken fileId
        (csvHeader c showTableNames customLabels itemMap
           (sortedFieldIds columnOrder hiddenFields firstRow) #
         csvValues c rt itemMap (sortedFieldIds columnOrder hiddenFields firstRow)
           (firstRow # moreRows))
        tabName w) \<and>
   set (sortedFieldIds columnOrder hiddenFields firstRow) = fst ` set firstRow - set hiddenFields \<and>
   length (csvHeader c showTableNames customLabels itemMap fieldIds) = length fieldIds \<and>
   (k < length fieldIds \<longrightarrow>
      (customLabels (fieldIds ! k) = Some label \<and> label \<noteq> [] \<longrightarrow>
         csvHeader c showTableNames customLabels itemMap fieldIds ! k = JsString label) \<and>
      ((customLabels (fieldIds ! k) = Some [] \<or>
        customLabels (fieldIds ! k) = None \<and> \<not> isInherited (fieldIds ! k)) \<and>
       itemMap (fieldIds ! k) = Some item \<longrightarrow>
         csvHeader c showTableNames customLabels itemMap fieldIds ! k =
         JsString (if showTableNames then getItemLabel c (OwnItem item)
                   else getItemLabelWithoutTableName c (OwnItem item))) \<and>
      ((customLabels (fieldIds ! k) = Some [] \<or> customLabels (fieldIds ! k) = None) \<and>
       itemMap (fieldIds ! k) = None \<and> \<not> isInherited (fieldIds ! k) \<longrightarrow>
         csvHeader c showTableNames customLabels itemMap fieldIds ! k = JsString (fieldIds ! k)))"
proof (intro conjI impI)
  assume "isEnabled client"
  then show "appendToSheet sdk c rt client refreshToken fileId (firstRow # moreRows) itemMap
               showTableNames tabName columnOrder customLabels hiddenFields w =
             appendCsvToSheet sdk client refreshToken fileId
               (csvHeader c showTableNames customLabels itemMap
                  (sortedFieldIds columnOrder hiddenFields firstRow) #
                csvValues c rt itemMap (sortedFieldIds columnOrder hiddenFields firstRow)
                  (firstRow # moreRows))
               tabName w"
    by (simp add: appendToSheet_def Let_def)
next
  show "set (sortedFieldIds columnOrder hiddenFields firstRow) =
        fst ` set firstRow - set hiddenFields"
    by (auto simp add: sortedFieldIds_def objectKeys_set)
next
  show "length (csvHeader c showTableNames customLabels itemMap fieldIds) = length fieldIds"
    by (simp add: csvHeader_def)
next
  assume "k < length fieldIds" "customLabels (fieldIds ! k) = Some label \<and> label \<noteq> []"
  then show "csvHeader c showTableNames customLabels itemMap fieldIds ! k = JsString label"
    by (simp add: csvHeader_nth customLabel_own)
next
  assume k: "k < length fieldIds"
    and "(customLabels (fieldIds ! k) = Some [] \<or>
          customLabels (fieldIds ! k) = None \<and> \<not> isInherited (fieldIds ! k)) \<and>
         itemMap (fieldIds ! k) = Some item"
  then have falsy: "\<not> truthy (customLabel customLabels (fieldIds ! k))"
    and own: "itemOf itemMap (fieldIds ! k) = Some (OwnItem item)"
    by (auto simp add: customLabel_own customLabel_absent itemOf_own)
  show "csvHeader c showTableNames customLabels itemMap fieldIds ! k =
        JsString (if showTableNames then getItemLabel c (OwnItem item)
                  else getItemLabelWithoutTableName c (OwnItem item))"
    using k falsy own by (simp add: csvHeader_nth)
next
  assume k: "k < length fieldIds"
    and "(customLabels (fieldIds ! k) = Some [] \<or> customLabels (fieldIds ! k) = None) \<and>
         itemMap (fieldIds ! k) = None \<and> \<not> isInherited (fieldIds ! k)"
  then have falsy: "\<not> truthy (customLabel customLabels (fieldIds ! k))"
    and absent: "itemOf itemMap (fieldIds ! k) = None"
    by (auto simp add: customLabel_own customLabel_absent itemOf_absent)
  show "csvHeader c showTableNames customLabels itemMap fieldIds ! k = JsString (fieldIds ! k)"
    using k falsy absent by (simp add: csvHeader_nth)
qed

lemma exampleRow_sortedFieldIds:
  "sortedFieldIds [''order_date'', ''status''] [''secret''] exampleRow =
   [''raw'', ''order_date'', ''status'']"
  by (simp add: sortedFieldIds_def objectKeys_def isArrayIndex_def isDigit_def exampleRow_def)

lemma example_names_not_inherited:
  "\<not> isInherited ''raw''" "\<not> isInherited ''order_date''" "\<not> isInherited ''status''"
  by (simp_all add: isInherited_def inheritedMember_def objectPrototype_def)

text \<open>The example row has four keys; \<open>secret\<close> is hidden, \<open>raw\<close> is in neither the
  column order nor a map, \<open>order_date\<close> has an item and \<open>status\<close> a custom label.\<close>

theorem appendToSheet_header_labels_witness:
  "set (sortedFieldIds [''order_date'', ''status''] [''secret''] exampleRow) =
   {''status'', ''order_date'', ''raw''} \<and>
   csvHeader exampleSheetCommon True exampleLabels exampleItemMap
     [''raw'', ''order_date'', ''status''] =
   [JsString ''raw'', JsString ''Orders Order date'', JsString ''State''] \<and>
   appendToSheet (rejectingSdk (\<lambda>call. None)) exampleSheetCommon exampleRuntime exampleClient
     ''token'' ''file-1'' [exampleRow] exampleItemMap True None [''order_date'', ''status'']
     exampleLabels [''secret''] emptyWorld =
   appendCsvToSheet (rejectingSdk (\<lambda>call. None)) exampleClient ''token'' ''file-1''
     [[JsString ''raw'', JsString ''Orders Order date'', JsString ''State''],
      [JsNumber 1, JsString ''date by WEEK'', JsString ''shipped'']]
     None emptyWorld"
proof -
  note labels =
    appendToSheet_header_labels
      [where c = exampleSheetCommon and showTableNames = True and customLabels = exampleLabels
         and itemMap = exampleItemMap and fieldIds = "[''raw'', ''order_date'', ''status'']"
         and columnOrder = "[''order_date'', ''status'']" and hiddenFields = "[''secret'']"
         and firstRow = exampleRow and moreRows = "[]" and client = exampleClient
         and sdk = "rejectingSdk (\<lambda>call. None)" and rt = exampleRuntime
         and refreshToken = "''token''" and fileId = "''file-1''" and tabName = None
         and w = emptyWorld]
  have on: "isEnabled exampleClient"
    by (simp add: exampleClient_def newGoogleDriveClient_def)
  have raw:
    "csvHeader exampleSheetCommon True exampleLabels exampleItemMap
       [''raw'', ''order_date'', ''status''] ! 0 = JsString ''raw''"
    using labels [where k = 0 and label = "''State''" and item = orderDate]
    by (simp add: exampleLabels_def exampleItemMap_def example_names_not_inherited)
  have date:
    "csvHeader exampleSheetCommon True exampleLabels exampleItemMap
       [''raw'', ''order_date'', ''status''] ! 1 =
     JsString (getItemLabel exampleSheetCommon (OwnItem orderDate))"
    using labels [where k = 1 and label = "''State''" and item = orderDate]
    by (simp add: exampleLabels_def exampleItemMap_def example_names_not_inherited)
  have status:
    "csvHeader exampleSheetCommon True exampleLabels exampleItemMap
       [''raw'', ''order_date'', ''status''] ! 2 = JsString ''State''"
    using labels [where k = 2 and label = "''State''" and item = orderDate]
    by (simp add: exampleLabels_def exampleItemMap_def)
  have size:
    "length (csvHeader exampleSheetCommon True exampleLabels exampleItemMap
               [''raw'', ''order_date'', ''status'']) = 3"
    using labels [where k = 0 and label = "''State''" and item = orderDate] by simp
  have header:
    "csvHeader exampleSheetCommon True exampleLabels exampleItemMap
       [''raw'', ''order_date'', ''status''] =
     [JsString ''raw'', JsString (getItemLabel exampleSheetCommon (OwnItem orderDate)),
      JsString ''State'']"
  proof (rule nth_equalityI)
    show "length (csvHeader exampleSheetCommon True exampleLabels exampleItemMap
                    [''raw'', ''order_date'', ''status'']) =
          length [JsString ''raw'', JsString (getItemLabel exampleSheetCommon (OwnItem orderDate)),
                  JsString ''State'']"
      using size by simp
  next
    fix i
    assume "i < length (csvHeader exampleSheetCommon True exampleLabels exampleItemMap
                          [''raw'', ''order_date'', ''status''])"
    with size have "i = 0 \<or> i = 1 \<or> i = 2"
      by arith
    with raw date status
    show "csvHeader exampleSheetCommon True exampleLabels exampleItemMap
            [''raw'', ''order_date'', ''status''] ! i =
          [JsString ''raw'', JsString (getItemLabel exampleSheetCommon (OwnItem orderDate)),
           JsString ''State''] ! i"
      by auto
  qed
  have keys:
    "set (sortedFieldIds [''order_date'', ''status''] [''secret''] exampleRow) =
     {''status'', ''order_date'', ''raw''}"
    using labels [where k = 0 and label = "''State''" and item = orderDate]
    by (auto simp add: exampleRow_def)
  have handed:
    "appendToSheet (rejectingSdk (\<lambda>call. None)) exampleSheetCommon exampleRuntime exampleClient
       ''token'' ''file-1'' [exampleRow] exampleItemMap True None [''order_date'', ''status'']
       exampleLabels [''secret''] emptyWorld =
     appendCsvToSheet (rejectingSdk (\<lambda>call. None)) exampleClient ''token'' ''file-1''
       (csvHeader exampleSheetCommon True exampleLabels exampleItemMap
          (sortedFieldIds [''order_date'', ''status''] [''secret''] exampleRow) #
        csvValues exampleSheetCommon exampleRuntime exampleItemMap
          (sortedFieldIds [''order_date'', ''status''] [''secret''] exampleRow) [exampleRow])
       None emptyWorld"
    using labels [where k = 0 and label = "''State''" and item = orderDate] on by simp
  have cells:
    "csvValues exampleSheetCommon exampleRuntime exampleItemMap
       [''raw'', ''order_date'', ''status''] [exampleRow] =
     [[JsNumber 1, JsString ''date by WEEK'', JsString ''shipped'']]"
    by (simp add: csvValues_def exampleRow_def rowValue_def itemOf_def exampleItemMap_def
          formatCell_def isDateField_def dateTimeInterval_def exampleSheetCommon_def orderDate_def
          orderStatus_def inheritedMember_def objectPrototype_def)
  show ?thesis
    unfolding handed exampleRow_sortedFieldIds header cells
    using keys by (simp add: exampleRow_sortedFieldIds exampleSheetCommon_def orderDate_def)
qed

text \<open>C9 as stated fails for a custom label that is the empty string: the label exists
  for the field, and the header shows the field identifier instead.\<close>

theorem appendToSheet_empty_label_counterexample:
  "(Map.empty(''status'' \<mapsto> '''')) ''status'' = Some '''' \<and>
   csvHeader exampleSheetCommon True (Map.empty(''status'' \<mapsto> '''')) Map.empty
     (sortedFieldIds [] [] [(''status'', JsString ''shipped'')]) =
   [JsString ''status'']"
  by (simp add: csvHeader_def sortedFieldIds_def objectKeys_def isArrayIndex_def isDigit_def
        customLabel_def itemOf_def inheritedMember_def objectPrototype_def)

text \<open>An identifier that names an inherited member, and for which the caller gave no
  label, gets the member as its header cell: with no custom labels at all, the column
  \<open>constructor\<close> is headed by the function \<^verbatim>\<open>Object\<close>. A later row without the
  property shows the member as its value, too.\<close>

lemma csvHeader_inherited_member:
  "csvHeader exampleSheetCommon True Map.empty Map.empty
     (sortedFieldIds [] [] [(''constructor'', JsString ''x'')]) =
   [JsFunction ''Object''] \<and>
   csvValues exampleSheetCommon exampleRuntime Map.empty
     (sortedFieldIds [] [] [(''constructor'', JsString ''x'')])
     [[(''constructor'', JsString ''x'')], []] =
   [[JsString ''x''], [JsFunction ''Object'']]"
  by (simp add: csvHeader_def csvValues_def sortedFieldIds_def objectKeys_def isArrayIndex_def
        isDigit_def customLabel_def itemOf_def rowValue_def inheritedMember_def
        objectPrototype_def formatCell_def isDateField_def exampleSheetCommon_def)

subsection \<open>The calls an operation makes\<close>

lemma guardedCall_eq:
  "guardedCall sdk auth call w =
   (catchForbiddenError (fst (sheetsApi sdk auth call (provider w))),
    w\<lparr>provider := snd (sheetsApi sdk auth call (provider w)),
      calls := calls w @ [(call, fst (sheetsApi sdk auth call (provider w)))]\<rparr>)"
  by (simp add: guardedCall_def callSheets_def split: prod.splits)

lemma catchForbiddenError_401:
  "errStatus err = Some 401 \<Longrightarrow> \<exists>msg. catchForbiddenError (Inl err) = Inl (ForbiddenError msg)"
  by (simp add: catchForbiddenError_def)

lemma catchForbiddenError_Inr [simp]: "catchForbiddenError (Inr v) = Inr v"
  by (simp add: catchForbiddenError_def)

lemma tabCatchHandler_world:
  "tabCatchHandler tabName error w = (r, w') \<Longrightarrow> calls w' = calls w \<and> provider w' = provider w"
  by (auto simp add: tabCatchHandler_def Let_def logLine_simps
        split: if_splits option.splits list.splits)

text \<open>\<^verbatim>\<open>createNewTab\<close> makes no call that writes values or creates a spreadsheet.\<close>

lemma createNewTab_calls:
  assumes "createNewTab sdk client refreshToken fileId tabName w = (r, w')"
  shows "\<exists>ts. calls w' = calls w @ ts \<and>
              (\<forall>x\<in>set ts. \<not> isValuesUpdate (fst x) \<and> \<not> isSpreadsheetsCreate (fst x))"
proof (cases "isEnabled client")
  case False
  with assms show ?thesis by (simp add: createNewTab_def)
next
  case True
  show ?thesis
  proof (cases "getCredentials sdk client refreshToken")
    case (Inl f)
    with True assms show ?thesis by (simp add: createNewTab_def)
  next
    case (Inr auth)
    let ?call = "BatchUpdateAddSheet fileId (replaceColons tabName)"
    let ?settled = "fst (sheetsApi sdk auth ?call (provider w))"
    let ?w1 = "w\<lparr>provider := snd (sheetsApi sdk auth ?call (provider w)),
                 calls := calls w @ [(?call, ?settled)]\<rparr>"
    have "calls w' = calls ?w1"
    proof (cases "catchForbiddenError ?settled")
      case (Inr created)
      with True \<open>getCredentials sdk client refreshToken = Inr auth\<close> assms show ?thesis
        by (simp add: createNewTab_def guardedCall_eq Let_def)
    next
      case (Inl error)
      obtain handled w2 where handler: "tabCatchHandler tabName error ?w1 = (handled, w2)"
        by (cases "tabCatchHandler tabName error ?w1")
      with True \<open>getCredentials sdk client refreshToken = Inr auth\<close> Inl assms have "w' = w2"
        by (auto simp add: createNewTab_def guardedCall_eq Let_def split: sum.splits)
      with tabCatchHandler_world [OF handler] show ?thesis by simp
    qed
    then have "calls w' = calls w @ [(?call, ?settled)]" by simp
    then show ?thesis by auto
  qed
qed

text \<open>Neither does \<^verbatim>\<open>clearTabName\<close>, and it never fails.\<close>

lemma clearTabNameTry_calls:
  assumes "clearTabNameTry sdk auth fileId tabName w = (r, w')"
  shows "\<exists>ts. calls w' = calls w @ ts \<and>
              (\<forall>x\<in>set ts. \<not> isValuesUpdate (fst x) \<and> \<not> isSpreadsheetsCreate (fst x))"
  using assms
  by (auto simp add: clearTabNameTry_def guardedCall_eq logLine_simps
        split: option.splits sum.splits if_splits)

lemma clearTabName_never_fails: "fst (clearTabName sdk auth fileId tabName w) = Inr ()"
  by (simp add: clearTabName_def split: prod.splits sum.splits)

lemma clearTabName_calls:
  assumes "clearTabName sdk auth fileId tabName w = (r, w')"
  shows "\<exists>ts. calls w' = calls w @ ts \<and>
              (\<forall>x\<in>set ts. \<not> isValuesUpdate (fst x) \<and> \<not> isSpreadsheetsCreate (fst x))"
proof -
  obtain tried w1 where tried: "clearTabNameTry sdk auth fileId tabName w = (tried, w1)"
    by (cases "clearTabNameTry sdk auth fileId tabName w")
  with assms have "calls w' = calls w1"
    by (auto simp add: clearTabName_def logLine_simps split: sum.splits)
  with clearTabNameTry_calls [OF tried] show ?thesis by simp
qed

lemma newCalls_append: "calls w' = calls w @ ts \<Longrightarrow> newCalls w w' = ts"
  by (simp add: newCalls_def)

lemma no_write_among:
  assumes "calls w' = calls w @ ts"
    and "\<forall>x\<in>set ts. \<not> isValuesUpdate (fst x) \<and> \<not> isSpreadsheetsCreate (fst x)"
    and "(call, answer) \<in> set (newCalls w w')"
    and "isValuesUpdate call \<or> isSpreadsheetsCreate call"
  shows False
  using assms by (auto simp add: newCalls_append)

text \<open>An operation whose last step is a guarded write: when a write it made was answered
  with a 401, that write is the last step, and the step fails with a Forbidden error.\<close>

lemma final_write_401:
  assumes before: "calls w2 = calls w @ ts"
    and reads: "\<forall>x\<in>set ts. \<not> isValuesUpdate (fst x) \<and> \<not> isSpreadsheetsCreate (fst x)"
    and step: "guardedCall sdk auth written w2 = (g, w3)"
    and made: "(call, Inl err) \<in> set (newCalls w w3)"
    and writes: "isValuesUpdate call \<or> isSpreadsheetsCreate call"
    and unauthorized: "errStatus err = Some 401"
  shows "\<exists>msg. g = Inl (ForbiddenError msg)"
proof -
  let ?settled = "fst (sheetsApi sdk auth written (provider w2))"
  from step have g: "g = catchForbiddenError ?settled"
    and w3: "calls w3 = calls w2 @ [(written, ?settled)]"
    by (auto simp add: guardedCall_eq)
  from w3 before have "newCalls w w3 = ts @ [(written, ?settled)]"
    by (simp add: newCalls_def)
  with made reads writes have "?settled = Inl err"
    by auto
  with g catchForbiddenError_401 [OF unauthorized] show ?thesis
    by simp
qed

lemma createNewSheet_401:
  assumes run: "createNewSheet sdk client refreshToken newTitle w = (r, w')"
    and made: "(call, Inl err) \<in> set (newCalls w w')"
    and writes: "isValuesUpdate call \<or> isSpreadsheetsCreate call"
    and unauthorized: "errStatus err = Some 401"
  shows "\<exists>msg. r = Inl (ForbiddenError msg)"
proof (cases "isEnabled client")
  case False
  with run have "calls w' = calls w @ []" by (simp add: createNewSheet_def)
  from no_write_among [OF this _ made writes] show ?thesis by simp
next
  case True
  show ?thesis
  proof (cases "getCredentials sdk client refreshToken")
    case (Inl f)
    with True run have "calls w' = calls w @ []" by (simp add: createNewSheet_def)
    from no_write_among [OF this _ made writes] show ?thesis by simp
  next
    case (Inr auth)
    with True run have "guardedCall sdk auth (SpreadsheetsCreate newTitle) w = (r, w')"
      by (simp add: createNewSheet_def)
    from final_write_401 [OF _ _ this made writes unauthorized, of "[]"] show ?thesis by simp
  qed
qed

lemma appendCsvToSheet_401:
  assumes run: "appendCsvToSheet sdk client refreshToken fileId results tabName w = (r, w')"
    and made: "(call, Inl err) \<in> set (newCalls w w')"
    and writes: "isValuesUpdate call \<or> isSpreadsheetsCreate call"
    and unauthorized: "errStatus err = Some 401"
  shows "\<exists>msg. r = Inl (ForbiddenError msg)"
proof (cases "isEnabled client")
  case False
  with run have "calls w' = calls w @ []" by (simp add: appendCsvToSheet_def)
  from no_write_among [OF this _ made writes] show ?thesis by simp
next
  case True
  show ?thesis
  proof (cases results)
    case Nil
    with True run have "calls w' = calls w @ []"
      by (auto simp add: appendCsvToSheet_def logLine_simps)
    from no_write_among [OF this _ made writes] show ?thesis by simp
  next
    case (Cons firstResult moreResults)
    show ?thesis
    proof (cases "getCredentials sdk client refreshToken")
      case (Inl f)
      with True Cons run have "calls w' = calls w @ []" by (simp add: appendCsvToSheet_def)
      from no_write_among [OF this _ made writes] show ?thesis by simp
    next
      case (Inr auth)
      define tabStep where
        "tabStep =
           (if truthyString tabName then
              (case createNewTab sdk client refreshToken fileId (interpolate ''undefined'' tabName)
                      (logLine
                         (LogInfo (''Creating new tab '' @ interpolate ''undefined'' tabName @
                                   '' on Google sheets''))
                         w) of
                 (Inl f, w1) \<Rightarrow> (Inl f, w1)
               | (Inr tabTitle, w1) \<Rightarrow> (Inr (Some tabTitle), w1))
            else (Inr None, w))"
      obtain tabResult w1 where tab: "tabStep = (tabResult, w1)"
        by (cases tabStep)
      have "\<exists>ts. calls w1 = calls w @ ts \<and>
                 (\<forall>x\<in>set ts. \<not> isValuesUpdate (fst x) \<and> \<not> isSpreadsheetsCreate (fst x))"
      proof (cases "truthyString tabName")
        case False
        with tab show ?thesis by (simp add: tabStep_def)
      next
        case True
        obtain created wt where
          created: "createNewTab sdk client refreshToken fileId (interpolate ''undefined'' tabName)
                      (logLine
                         (LogInfo (''Creating new tab '' @ interpolate ''undefined'' tabName @
                                   '' on Google sheets''))
                         w) = (created, wt)"
          by (cases "createNewTab sdk client refreshToken fileId (interpolate ''undefined'' tabName)
                       (logLine
                          (LogInfo (''Creating new tab '' @ interpolate ''undefined'' tabName @
                                    '' on Google sheets''))
                          w)")
        with True tab have "w1 = wt"
          by (auto simp add: tabStep_def split: sum.splits)
        with createNewTab_calls [OF created] show ?thesis
          by (simp add: logLine_simps)
      qed
      then obtain ts1 where ts1: "calls w1 = calls w @ ts1"
        and reads1: "\<forall>x\<in>set ts1. \<not> isValuesUpdate (fst x) \<and> \<not> isSpreadsheetsCreate (fst x)"
        by blast
      show ?thesis
      proof (cases tabResult)
        case (Inl f)
        with True Cons Inr tab run have "w' = w1"
          by (simp add: appendCsvToSheet_def tabStep_def [symmetric])
        with ts1 have "calls w' = calls w @ ts1" by simp
        from no_write_among [OF this reads1 made writes] show ?thesis ..
      next
        case (Inr sanitizedTabName)
        obtain cleared w2 where clear: "clearTabName sdk auth fileId tabName w1 = (cleared, w2)"
          by (cases "clearTabName sdk auth fileId tabName w1")
        from clearTabName_never_fails [of sdk auth fileId tabName w1] clear
        have cleared: "cleared = Inr ()" by simp
        from clearTabName_calls [OF clear] obtain ts2 where ts2: "calls w2 = calls w1 @ ts2"
          and reads2: "\<forall>x\<in>set ts2. \<not> isValuesUpdate (fst x) \<and> \<not> isSpreadsheetsCreate (fst x)"
          by blast
        let ?logged =
          "logLine
             (LogInfo (''Writing '' @ showNat (length results) @ '' rows and '' @
                       showNat (length firstResult) @ '' columns to Google sheets''))
             w2"
        let ?written =
          "ValuesUpdate fileId
             (if truthyString sanitizedTabName
              then interpolate ''undefined'' sanitizedTabName @ ''!A1'' else ''A1'')
             RAW results"
        obtain g w3 where step: "guardedCall sdk auth ?written ?logged = (g, w3)"
          by (cases "guardedCall sdk auth ?written ?logged")
        from True Cons \<open>getCredentials sdk client refreshToken = Inr auth\<close> tab Inr clear cleared
          step run
        have result: "r = (case g of Inl f \<Rightarrow> Inl f | Inr updated \<Rightarrow> Inr ())" and "w' = w3"
          by (auto simp add: appendCsvToSheet_def tabStep_def [symmetric] split: sum.splits)
        have before: "calls ?logged = calls w @ (ts1 @ ts2)"
          using ts1 ts2 by (simp add: logLine_simps)
        have reads: "\<forall>x\<in>set (ts1 @ ts2).
                       \<not> isValuesUpdate (fst x) \<and> \<not> isSpreadsheetsCreate (fst x)"
          using reads1 reads2 by auto
        from final_write_401 [OF before reads step _ writes unauthorized] made \<open>w' = w3\<close>
        obtain msg where "g = Inl (ForbiddenError msg)" by blast
        with result show ?thesis by simp
      qed
    qed
  qed
qed

lemma appendToSheet_401:
  assumes run: "appendToSheet sdk c rt client refreshToken fileId csvContent itemMap showTableNames
                  tabName columnOrder customLabels hiddenFields w = (r, w')"
    and made: "(call, Inl err) \<in> set (newCalls w w')"
    and writes: "isValuesUpdate call \<or> isSpreadsheetsCreate call"
    and unauthorized: "errStatus err = Some 401"
  shows "\<exists>msg. r = Inl (ForbiddenError msg)"
proof (cases "isEnabled client \<and> csvContent \<noteq> []")
  case False
  with run have "calls w' = calls w @ []"
    by (auto simp add: appendToSheet_def logLine_simps split: list.splits if_splits)
  from no_write_among [OF this _ made writes] show ?thesis by simp
next
  case True
  then obtain firstRow moreRows where "csvContent = firstRow # moreRows"
    by (cases csvContent) auto
  with True run obtain grid where
    "appendCsvToSheet sdk client refreshToken fileId grid tabName w = (r, w')"
    by (simp add: appendToSheet_def Let_def)
  from appendCsvToSheet_401 [OF this made writes unauthorized] show ?thesis .
qed

lemma uploadMetadata_401:
  assumes run: "uploadMetadata sdk client now refreshToken fileId updateFrequency tabs reportUrl w =
                (r, w')"
    and made: "(call, Inl err) \<in> set (newCalls w w')"
    and writes: "isValuesUpdate call \<or> isSpreadsheetsCreate call"
    and unauthorized: "errStatus err = Some 401"
  shows "\<exists>msg. r = Inl (ForbiddenError msg)"
proof (cases "isEnabled client")
  case False
  with run have "calls w' = calls w @ []" by (simp add: uploadMetadata_def)
  from no_write_among [OF this _ made writes] show ?thesis by simp
next
  case True
  show ?thesis
  proof (cases "getCredentials sdk client refreshToken")
    case (Inl f)
    with True run have "calls w' = calls w @ []" by (simp add: uploadMetadata_def)
    from no_write_among [OF this _ made writes] show ?thesis by simp
  next
    case (Inr auth)
    obtain created w1 where
      tab: "createNewTab sdk client refreshToken fileId ''metadata'' w = (created, w1)"
      by (cases "createNewTab sdk client refreshToken fileId ''metadata'' w")
    from createNewTab_calls [OF tab] obtain ts1 where ts1: "calls w1 = calls w @ ts1"
      and reads1: "\<forall>x\<in>set ts1. \<not> isValuesUpdate (fst x) \<and> \<not> isSpreadsheetsCreate (fst x)"
      by blast
    show ?thesis
    proof (cases created)
      case (Inl f)
      with True Inr tab run have "w' = w1" by (simp add: uploadMetadata_def)
      with ts1 have "calls w' = calls w @ ts1" by simp
      from no_write_among [OF this reads1 made writes] show ?thesis ..
    next
      case (Inr tabTitle)
      obtain cleared w2 where
        clear: "clearTabName sdk auth fileId (Some ''metadata'') w1 = (cleared, w2)"
        by (cases "clearTabName sdk auth fileId (Some ''metadata'') w1")
      from clearTabName_never_fails [of sdk auth fileId "Some ''metadata''" w1] clear
      have cleared: "cleared = Inr ()" by simp
      from clearTabName_calls [OF clear] obtain ts2 where ts2: "calls w2 = calls w1 @ ts2"
        and reads2: "\<forall>x\<in>set ts2. \<not> isValuesUpdate (fst x) \<and> \<not> isSpreadsheetsCreate (fst x)"
        by blast
      from True \<open>getCredentials sdk client refreshToken = Inr auth\<close> tab Inr clear cleared run
      obtain written g where step: "guardedCall sdk auth written w2 = (g, w')"
        and result: "r = (case g of Inl f \<Rightarrow> Inl f | Inr updated \<Rightarrow> Inr ())"
        by (auto simp add: uploadMetadata_def Let_def split: prod.splits sum.splits)
      have before: "calls w2 = calls w @ (ts1 @ ts2)"
        using ts1 ts2 by simp
      have reads: "\<forall>x\<in>set (ts1 @ ts2).
                     \<not> isValuesUpdate (fst x) \<and> \<not> isSpreadsheetsCreate (fst x)"
        using reads1 reads2 by auto
      from final_write_401 [OF before reads step made writes unauthorized]
      obtain msg where "g = Inl (ForbiddenError msg)" by blast
      with result show ?thesis by simp
    qed
  qed
qed

subsection \<open>Tab creation\<close>

lemma createNewTab_transient:
  assumes "isEnabled client"
    and "getCredentials sdk client refreshToken = Inr auth"
    and "fst (sheetsApi sdk auth (BatchUpdateAddSheet fileId (replaceColons tabName)) (provider w)) =
         Inl err"
    and "errStatus err = Some 500"
    and "errCode err = Some (CodeNumber 500)"
  shows "fst (createNewTab sdk client refreshToken fileId tabName w) =
         Inl (GoogleSheetsTransientError (ProviderFailure err))"
  using assms
  by (simp add: createNewTab_def guardedCall_eq catchForbiddenError_def tabCatchHandler_def Let_def)

text \<open>A tab-already-exists answer: code 400, and a first message that names the tab.
  Whatever else the error carries, \<^verbatim>\<open>createNewTab\<close> returns the tab title, having made
  the one call.\<close>

lemma createNewTab_tab_exists:
  assumes "isEnabled client"
    and "getCredentials sdk client refreshToken = Inr auth"
    and "fst (sheetsApi sdk auth (BatchUpdateAddSheet fileId (replaceColons tabName)) (provider w)) =
         Inl err"
    and "errCode err = Some (CodeNumber 400)"
    and "errErrors err = Some (detail # details)"
    and "detailMessage detail = Some msg"
    and "stringIncludes msg tabName"
  shows "fst (createNewTab sdk client refreshToken fileId tabName w) = Inr (replaceColons tabName)"
    and "calls (snd (createNewTab sdk client refreshToken fileId tabName w)) =
         calls w @ [(BatchUpdateAddSheet fileId (replaceColons tabName), Inl err)]"
  using assms
  by (auto simp add: createNewTab_def guardedCall_eq catchForbiddenError_def tabCatchHandler_def
        Let_def logLine_simps)

text \<open>A 401 answer to the tab creation is turned into a Forbidden error, which the
  handler given to \<^verbatim>\<open>.catch\<close> then drops: it has no \<^verbatim>\<open>code\<close>.\<close>

lemma createNewTab_drops_401:
  assumes "isEnabled client"
    and "getCredentials sdk client refreshToken = Inr auth"
    and "fst (sheetsApi sdk auth (BatchUpdateAddSheet fileId (replaceColons tabName)) (provider w)) =
         Inl err"
    and "errStatus err = Some 401"
  shows "fst (createNewTab sdk client refreshToken fileId tabName w) = Inr (replaceColons tabName)"
  using assms
  by (simp add: createNewTab_def guardedCall_eq catchForbiddenError_def tabCatchHandler_def Let_def)

lemma clearTabName_named_calls:
  "calls (snd (clearTabName sdk auth fileId (Some t) w)) =
   calls w @ [(ValuesClear fileId t, fst (sheetsApi sdk auth (ValuesClear fileId t) (provider w)))]"
  by (simp add: clearTabName_def clearTabNameTry_def guardedCall_eq logLine_simps
        split: sum.splits)

lemma clearTabName_logs_failure:
  "clearTabNameTry sdk auth fileId tabName w = (Inl failure, w1) \<Longrightarrow>
   clearTabName sdk auth fileId tabName w =
   (Inr (), logLine (LogError ''Unable to clear the sheet'' failure) w1)"
  by (simp add: clearTabName_def)

text \<open>After a tab-already-exists answer \<^verbatim>\<open>appendCsvToSheet\<close> goes on: it clears the tab
  and writes the values to it.\<close>

lemma appendCsvToSheet_after_tab_exists:
  assumes on: "isEnabled client"
    and auth: "getCredentials sdk client refreshToken = Inr auth"
    and answer: "fst (sheetsApi sdk auth (BatchUpdateAddSheet fileId (replaceColons tabName))
                       (provider w)) = Inl err"
    and code: "errCode err = Some (CodeNumber 400)"
    and details: "errErrors err = Some (detail # details)"
    and msg: "detailMessage detail = Some msg"
    and names: "stringIncludes msg tabName"
    and tab: "tabName \<noteq> []"
  shows "map fst
           (newCalls w
              (snd (appendCsvToSheet sdk client refreshToken fileId (firstResult # moreResults)
                      (Some tabName) w))) =
         [BatchUpdateAddSheet fileId (replaceColons tabName), ValuesClear fileId tabName,
          ValuesUpdate fileId (replaceColons tabName @ ''!A1'') RAW (firstResult # moreResults)]"
proof -
  let ?logged =
    "logLine (LogInfo (''Creating new tab '' @ tabName @ '' on Google sheets'')) w"
  from answer have answer':
    "fst (sheetsApi sdk auth (BatchUpdateAddSheet fileId (replaceColons tabName))
            (provider ?logged)) = Inl err"
    by (simp add: logLine_simps)
  obtain created w1 where
    run: "createNewTab sdk client refreshToken fileId tabName ?logged = (created, w1)"
    by (cases "createNewTab sdk client refreshToken fileId tabName ?logged")
  from createNewTab_tab_exists [OF on auth answer' code details msg names] run
  have created: "created = Inr (replaceColons tabName)"
    and w1: "calls w1 = calls w @ [(BatchUpdateAddSheet fileId (replaceColons tabName), Inl err)]"
    by (simp_all add: logLine_simps)
  obtain cleared w2 where clear: "clearTabName sdk auth fileId (Some tabName) w1 = (cleared, w2)"
    by (cases "clearTabName sdk auth fileId (Some tabName) w1")
  from clearTabName_never_fails [of sdk auth fileId "Some tabName" w1] clear
  have cleared: "cleared = Inr ()" by simp
  from clearTabName_named_calls [of sdk auth fileId tabName w1] clear
  have w2: "map fst (calls w2) = map fst (calls w1) @ [ValuesClear fileId tabName]"
    by simp
  from tab have title: "replaceColons tabName \<noteq> []"
    by (simp add: replaceColons_def)
  from on auth run created clear cleared tab title
  have "map fst
          (calls (snd (appendCsvToSheet sdk client refreshToken fileId (firstResult # moreResults)
                         (Some tabName) w))) =
        map fst (calls w2) @
        [ValuesUpdate fileId (replaceColons tabName @ ''!A1'') RAW (firstResult # moreResults)]"
    by (simp add: appendCsvToSheet_def guardedCall_eq logLine_simps split: sum.splits)
  with w1 w2 show ?thesis
    by (simp add: newCalls_def drop_map [symmetric])
qed

subsection \<open>Authorization errors, transient errors and the errors that are dropped\<close>

lemma exampleClient_enabled: "isEnabled exampleClient"
  by (simp add: exampleClient_def newGoogleDriveClient_def)

lemma rejectingSdk_credentials:
  "getCredentials (rejectingSdk rejections) client refreshToken = Inr refreshToken"
  by (simp add: getCredentials_def rejectingSdk_def)

lemma rejectingSdk_answer:
  "sheetsApi (rejectingSdk rejections) auth call p =
   (case rejections call of
      Some err \<Rightarrow> (Inl err, Suc p)
    | None \<Rightarrow> (Inr exampleSpreadsheet, Suc p))"
  by (simp add: rejectingSdk_def)

text \<open>
  C8. A tab-already-exists answer to the tab creation (code 400, the first message naming
  the tab) is no error: \<^verbatim>\<open>createNewTab\<close> returns the tab title, and \<^verbatim>\<open>appendCsvToSheet\<close>
  goes on to clear that tab and to write the values to it. \<^verbatim>\<open>clearTabName\<close> never
  fails: whatever its \<^verbatim>\<open>try\<close> block throws is logged as an error and dropped.
\<close>

theorem tab_exists_and_clearing_failures_are_no_errors:
  "(isEnabled client \<and> getCredentials sdk client refreshToken = Inr auth \<and>
    fst (sheetsApi sdk auth (BatchUpdateAddSheet fileId (replaceColons tabName)) (provider w)) =
    Inl err \<and>
    errCode err = Some (CodeNumber 400) \<and> errErrors err = Some (detail # details) \<and>
    detailMessage detail = Some msg \<and> stringIncludes msg tabName \<longrightarrow>
      fst (createNewTab sdk client refreshToken fileId tabName w) = Inr (replaceColons tabName) \<and>
      (tabName \<noteq> [] \<longrightarrow>
         map fst
           (newCalls w
              (snd (appendCsvToSheet sdk client refreshToken fileId (firstResult # moreResults)
                      (Some tabName) w))) =
         [BatchUpdateAddSheet fileId (replaceColons tabName), ValuesClear fileId tabName,
          ValuesUpdate fileId (replaceColons tabName @ ''!A1'') RAW (firstResult # moreResults)])) \<and>
   fst (clearTabName sdk clearAuth clearedFile clearedTab clearedWorld) = Inr () \<and>
   (clearTabNameTry sdk clearAuth clearedFile clearedTab clearedWorld = (Inl failure, w1) \<longrightarrow>
      clearTabName sdk clearAuth clearedFile clearedTab clearedWorld =
      (Inr (), logLine (LogError ''Unable to clear the sheet'' failure) w1))"
  by (auto simp add: createNewTab_tab_exists(1) appendCsvToSheet_after_tab_exists
        clearTabName_never_fails clearTabName_logs_failure)

text \<open>The tab \<open>results\<close> exists already: its creation is answered with a 400 that names
  it, the tab title is returned, and the export clears and writes the tab. Against a
  provider that answers every call with a 401, clearing returns and logs the error.\<close>

theorem tab_exists_and_clearing_failures_are_no_errors_witness:
  "fst (createNewTab tabExistsSdk exampleClient ''token'' ''file-1'' ''results'' emptyWorld) =
   Inr ''results'' \<and>
   map fst
     (newCalls emptyWorld
        (snd (appendCsvToSheet tabExistsSdk exampleClient ''token'' ''file-1'' [[JsString ''h'']]
                (Some ''results'') emptyWorld))) =
   [BatchUpdateAddSheet ''file-1'' ''results'', ValuesClear ''file-1'' ''results'',
    ValuesUpdate ''file-1'' ''results!A1'' RAW [[JsString ''h'']]] \<and>
   clearTabName unauthorizedSdk ''token'' ''file-1'' (Some ''results'') emptyWorld =
   (Inr (),
    \<lparr>provider = 1,
     calls = [(ValuesClear ''file-1'' ''results'', Inl unauthorized401)],
     logs = [LogDebug ''Clearing sheet name results'',
             LogError ''Unable to clear the sheet''
               (ForbiddenError ''Failed to authorize: unauthorized_client: Unauthorized'')]\<rparr>)"
proof -
  have exists:
    "isEnabled exampleClient \<and> getCredentials tabExistsSdk exampleClient ''token'' = Inr ''token'' \<and>
     fst (sheetsApi tabExistsSdk ''token'' (BatchUpdateAddSheet ''file-1'' (replaceColons ''results''))
            (provider emptyWorld)) = Inl tabExists400 \<and>
     errCode tabExists400 = Some (CodeNumber 400) \<and>
     errErrors tabExists400 =
       Some (\<lparr>detailMessage = Some ''A sheet with the name results already exists''\<rparr> # []) \<and>
     detailMessage \<lparr>detailMessage = Some ''A sheet with the name results already exists''\<rparr> =
       Some ''A sheet with the name results already exists'' \<and>
     stringIncludes ''A sheet with the name results already exists'' ''results''"
    by (simp add: exampleClient_enabled tabExistsSdk_def rejectingSdk_credentials
          rejectingSdk_answer tabExists400_def)
  have tried:
    "clearTabNameTry unauthorizedSdk ''token'' ''file-1'' (Some ''results'') emptyWorld =
     (Inl (ForbiddenError ''Failed to authorize: unauthorized_client: Unauthorized''),
      \<lparr>provider = 1,
       calls = [(ValuesClear ''file-1'' ''results'', Inl unauthorized401)],
       logs = [LogDebug ''Clearing sheet name results'']\<rparr>)"
    by (simp add: clearTabNameTry_def guardedCall_eq unauthorizedSdk_def rejectingSdk_answer
          logLine_def emptyWorld_def catchForbiddenError_def errStatus_def unauthorized401_def)
  note facts =
    tab_exists_and_clearing_failures_are_no_errors
      [where sdk = tabExistsSdk and firstResult = "[JsString ''h'']" and moreResults = "[]",
       THEN conjunct1, rule_format, OF exists]
  note dropped =
    tab_exists_and_clearing_failures_are_no_errors
      [where sdk = unauthorizedSdk, THEN conjunct2, THEN conjunct2, rule_format, OF tried]
  have title: "replaceColons ''results'' = ''results''"
    by (simp add: replaceColons_def)
  from facts [THEN conjunct1] facts [THEN conjunct2, rule_format] dropped title
  show ?thesis
    by (simp add: logLine_def)
qed

text \<open>
  C6, as the code has it. When a call that creates a spreadsheet or writes values was
  answered with a 401 during \<^verbatim>\<open>createNewSheet\<close>, \<^verbatim>\<open>appendCsvToSheet\<close>,
  \<^verbatim>\<open>appendToSheet\<close> or \<^verbatim>\<open>uploadMetadata\<close>, the operation fails with a Forbidden error.
  Clearing a tab never fails, so a 401 answered to it does not reach the caller. A tab
  creation answered with status 500 and the number 500 as its code fails with a
  \<^verbatim>\<open>GoogleSheetsTransientError\<close>, which is no Forbidden error.
\<close>

theorem unauthorized_writes_and_transient_tab_creation:
  "((call, Inl err) \<in>
      set (newCalls w (snd (createNewSheet sdk client refreshToken newTitle w))) \<and>
    (isValuesUpdate call \<or> isSpreadsheetsCreate call) \<and> errStatus err = Some 401 \<longrightarrow>
      (\<exists>msg. fst (createNewSheet sdk client refreshToken newTitle w) = Inl (ForbiddenError msg))) \<and>
   ((call, Inl err) \<in>
      set (newCalls w (snd (appendCsvToSheet sdk client refreshToken fileId results tabName w))) \<and>
    (isValuesUpdate call \<or> isSpreadsheetsCreate call) \<and> errStatus err = Some 401 \<longrightarrow>
      (\<exists>msg. fst (appendCsvToSheet sdk client refreshToken fileId results tabName w) =
             Inl (ForbiddenError msg))) \<and>
   ((call, Inl err) \<in>
      set (newCalls w
             (snd (appendToSheet sdk c rt client refreshToken fileId csvContent itemMap
                     showTableNames tabName columnOrder customLabels hiddenFields w))) \<and>
    (isValuesUpdate call \<or> isSpreadsheetsCreate call) \<and> errStatus err = Some 401 \<longrightarrow>
      (\<exists>msg. fst (appendToSheet sdk c rt client refreshToken fileId csvContent itemMap
                    showTableNames tabName columnOrder customLabels hiddenFields w) =
             Inl (ForbiddenError msg))) \<and>
   ((call, Inl err) \<in>
      set (newCalls w
             (snd (uploadMetadata sdk client now refreshToken fileId updateFrequency tabs reportUrl
                     w))) \<and>
    (isValuesUpdate call \<or> isSpreadsheetsCreate call) \<and> errStatus err = Some 401 \<longrightarrow>
      (\<exists>msg. fst (uploadMetadata sdk client now refreshToken fileId updateFrequency tabs reportUrl
                    w) =
             Inl (ForbiddenError msg))) \<and>
   fst (clearTabName sdk auth fileId clearedTab w) = Inr () \<and>
   (isEnabled client \<and> getCredentials sdk client refreshToken = Inr auth \<and>
    fst (sheetsApi sdk auth (BatchUpdateAddSheet fileId (replaceColons newTab)) (provider w)) =
    Inl failure \<and>
    errStatus failure = Some 500 \<and> errCode failure = Some (CodeNumber 500) \<longrightarrow>
      fst (createNewTab sdk client refreshToken fileId newTab w) =
      Inl (GoogleSheetsTransientError (ProviderFailure failure)) \<and>
      (\<forall>msg. GoogleSheetsTransientError (ProviderFailure failure) \<noteq> ForbiddenError msg))"
proof (intro conjI impI)
  assume "(call, Inl err) \<in>
            set (newCalls w (snd (createNewSheet sdk client refreshToken newTitle w))) \<and>
          (isValuesUpdate call \<or> isSpreadsheetsCreate call) \<and> errStatus err = Some 401"
  then show "\<exists>msg. fst (createNewSheet sdk client refreshToken newTitle w) =
                   Inl (ForbiddenError msg)"
    using createNewSheet_401 [OF surjective_pairing] by blast
next
  assume "(call, Inl err) \<in>
            set (newCalls w
                   (snd (appendCsvToSheet sdk client refreshToken fileId results tabName w))) \<and>
          (isValuesUpdate call \<or> isSpreadsheetsCreate call) \<and> errStatus err = Some 401"
  then show "\<exists>msg. fst (appendCsvToSheet sdk client refreshToken fileId results tabName w) =
                   Inl (ForbiddenError msg)"
    using appendCsvToSheet_401 [OF surjective_pairing] by blast
next
  assume "(call, Inl err) \<in>
            set (newCalls w
                   (snd (appendToSheet sdk c rt client refreshToken fileId csvContent itemMap
                           showTableNames tabName columnOrder customLabels hiddenFields w))) \<and>
          (isValuesUpdate call \<or> isSpreadsheetsCreate call) \<and> errStatus err = Some 401"
  then show "\<exists>msg. fst (appendToSheet sdk c rt client refreshToken fileId csvContent itemMap
                          showTableNames tabName columnOrder customLabels hiddenFields w) =
                   Inl (ForbiddenError msg)"
    using appendToSheet_401 [OF surjective_pairing] by blast
next
  assume "(call, Inl err) \<in>
            set (newCalls w
                   (snd (uploadMetadata sdk client now refreshToken fileId updateFrequency tabs
                           reportUrl w))) \<and>
          (isValuesUpdate call \<or> isSpreadsheetsCreate call) \<and> errStatus err = Some 401"
  then show "\<exists>msg. fst (uploadMetadata sdk client now refreshToken fileId updateFrequency tabs
                          reportUrl w) =
                   Inl (ForbiddenError msg)"
    using uploadMetadata_401 [OF surjective_pairing] by blast
next
  show "fst (clearTabName sdk auth fileId clearedTab w) = Inr ()"
    by (rule clearTabName_never_fails)
next
  assume "isEnabled client \<and> getCredentials sdk client refreshToken = Inr auth \<and>
          fst (sheetsApi sdk auth (BatchUpdateAddSheet fileId (replaceColons newTab)) (provider w)) =
          Inl failure \<and>
          errStatus failure = Some 500 \<and> errCode failure = Some (CodeNumber 500)"
  then show "fst (createNewTab sdk client refreshToken fileId newTab w) =
             Inl (GoogleSheetsTransientError (ProviderFailure failure))"
    by (simp add: createNewTab_transient)
next
  show "\<forall>msg. GoogleSheetsTransientError (ProviderFailure failure) \<noteq> ForbiddenError msg"
    by simp
qed


text \<open>A spreadsheet creation and a value update answered with a 401 both end in a
  Forbidden error; a tab creation answered with a 500 ends in the transient error.\<close>

theorem unauthorized_writes_and_transient_tab_creation_witness:
  "(\<exists>msg. fst (createNewSheet unauthorizedSdk exampleClient ''token'' ''Report'' emptyWorld) =
          Inl (ForbiddenError msg)) \<and>
   (\<exists>msg. fst (appendCsvToSheet updateRejectingSdk exampleClient ''token'' ''file-1''
                 [[JsString ''h'']] None emptyWorld) =
          Inl (ForbiddenError msg)) \<and>
   fst (createNewTab serverErrorSdk exampleClient ''token'' ''file-1'' ''results'' emptyWorld) =
   Inl (GoogleSheetsTransientError (ProviderFailure serverError500))"
proof -
  have created:
    "(SpreadsheetsCreate ''Report'', Inl unauthorized401) \<in>
       set (newCalls emptyWorld
              (snd (createNewSheet unauthorizedSdk exampleClient ''token'' ''Report'' emptyWorld))) \<and>
     (isValuesUpdate (SpreadsheetsCreate ''Report'') \<or>
      isSpreadsheetsCreate (SpreadsheetsCreate ''Report'')) \<and>
     errStatus unauthorized401 = Some 401"
    by (simp add: createNewSheet_def exampleClient_enabled unauthorizedSdk_def
          rejectingSdk_credentials guardedCall_eq rejectingSdk_answer newCalls_def emptyWorld_def
          errStatus_def unauthorized401_def catchForbiddenError_def)
  have updated:
    "(ValuesUpdate ''file-1'' ''A1'' RAW [[JsString ''h'']], Inl unauthorized401) \<in>
       set (newCalls emptyWorld
              (snd (appendCsvToSheet updateRejectingSdk exampleClient ''token'' ''file-1''
                      [[JsString ''h'']] None emptyWorld))) \<and>
     (isValuesUpdate (ValuesUpdate ''file-1'' ''A1'' RAW [[JsString ''h'']]) \<or>
      isSpreadsheetsCreate (ValuesUpdate ''file-1'' ''A1'' RAW [[JsString ''h'']])) \<and>
     errStatus unauthorized401 = Some 401"
    by (simp add: appendCsvToSheet_def exampleClient_enabled updateRejectingSdk_def
          rejectingSdk_credentials clearTabName_def clearTabNameTry_def guardedCall_eq
          rejectingSdk_answer firstSheetTitle_def exampleSpreadsheet_def logLine_def
          newCalls_def emptyWorld_def errStatus_def unauthorized401_def catchForbiddenError_def)
  have failed:
    "isEnabled exampleClient \<and> getCredentials serverErrorSdk exampleClient ''token'' = Inr ''token'' \<and>
     fst (sheetsApi serverErrorSdk ''token''
            (BatchUpdateAddSheet ''file-1'' (replaceColons ''results'')) (provider emptyWorld)) =
     Inl serverError500 \<and>
     errStatus serverError500 = Some 500 \<and> errCode serverError500 = Some (CodeNumber 500)"
    by (simp add: exampleClient_enabled serverErrorSdk_def rejectingSdk_credentials
          rejectingSdk_answer errStatus_def serverError500_def)
  note all = unauthorized_writes_and_transient_tab_creation
  from all [THEN conjunct1, rule_format, OF created]
    all [THEN conjunct2, THEN conjunct1, rule_format, OF updated]
    all [THEN conjunct2, THEN conjunct2, THEN conjunct2, THEN conjunct2, THEN conjunct2,
         rule_format, OF failed, THEN conjunct1]
  show ?thesis
    by simp
qed

text \<open>C6 as stated fails for the clearing of a tab: the provider answers the clear call
  of an export with a 401, and the export succeeds. It fails also for a tab creation
  answered with status 500 when the error's code is not the number 500: the tab title is
  returned.\<close>

theorem unauthorized_clear_counterexample:
  "(ValuesClear ''file-1'' ''Sheet1'', Inl unauthorized401) \<in>
     set (newCalls emptyWorld
            (snd (appendCsvToSheet clearRejectingSdk exampleClient ''token'' ''file-1''
                    [[JsString ''h'']] None emptyWorld))) \<and>
   errStatus unauthorized401 = Some 401 \<and>
   fst (appendCsvToSheet clearRejectingSdk exampleClient ''token'' ''file-1'' [[JsString ''h'']]
          None emptyWorld) =
   Inr () \<and>
   errStatus serverError500Text = Some 500 \<and>
   createNewTab (rejectingSdk (\<lambda>call. Some serverError500Text)) exampleClient ''token'' ''file-1''
     ''results'' emptyWorld =
   (Inr ''results'',
    \<lparr>provider = 1,
     calls = [(BatchUpdateAddSheet ''file-1'' ''results'', Inl serverError500Text)],
     logs = []\<rparr>)"
  by (simp add: appendCsvToSheet_def exampleClient_enabled clearRejectingSdk_def
        rejectingSdk_credentials clearTabName_def clearTabNameTry_def guardedCall_eq
        rejectingSdk_answer firstSheetTitle_def exampleSpreadsheet_def logLine_def
        newCalls_def emptyWorld_def errStatus_def unauthorized401_def catchForbiddenError_def
        createNewTab_def tabCatchHandler_def serverError500Text_def replaceColons_def Let_def)

end
